theory Spec2Isabelle
  imports Main "HOL-Library.Word"
begin

unbundle bit_operations_syntax

section \<open>Process memory\<close>

text \<open>
  The introspection routines of \<^verbatim>\<open>sfse_common/Utilities.cpp\<close> walk raw pointers through a
  loaded image. The process address space is a partial map from 64-bit addresses to
  bytes; an address outside its domain is not readable, and touching it raises an access
  violation. A routine that is not wrapped in a structured exception handler then ends
  with \<open>AccessViolation\<close> (the process dies); \<open>Ret v\<close> is a normal return.
  All multi-byte fields are little-endian (x64).
\<close>

type_synonym addr = "64 word"
type_synonym byte = "8 word"
type_synonym u16 = "16 word"
type_synonym u32 = "32 word"
type_synonym u64 = "64 word"
type_synonym memory = "addr \<Rightarrow> byte option"

datatype 'a outcome = AccessViolation | Ret 'a

fun le_word :: "byte list \<Rightarrow> 'a::len word" where
  "le_word [] = 0"
| "le_word (b # bs) = ucast b OR push_bit 8 (le_word bs)"

fun read_bytes :: "memory \<Rightarrow> addr \<Rightarrow> nat \<Rightarrow> byte list outcome" where
  "read_bytes m p 0 = Ret []"
| "read_bytes m p (Suc n) =
     (case m p of
        None \<Rightarrow> AccessViolation
      | Some b \<Rightarrow>
          (case read_bytes m (p + 1) n of
             AccessViolation \<Rightarrow> AccessViolation
           | Ret bs \<Rightarrow> Ret (b # bs)))"

definition read_le :: "memory \<Rightarrow> addr \<Rightarrow> nat \<Rightarrow> ('a::len word) outcome" where
  "read_le m p n =
     (case read_bytes m p n of AccessViolation \<Rightarrow> AccessViolation | Ret bs \<Rightarrow> Ret (le_word bs))"

definition read16 :: "memory \<Rightarrow> addr \<Rightarrow> u16 outcome" where
  "read16 m p = read_le m p (Suc (Suc 0))"

definition read32 :: "memory \<Rightarrow> addr \<Rightarrow> u32 outcome" where
  "read32 m p = read_le m p (Suc (Suc (Suc (Suc 0))))"

definition read64 :: "memory \<Rightarrow> addr \<Rightarrow> u64 outcome" where
  "read64 m p = read_le m p (Suc (Suc (Suc (Suc (Suc (Suc (Suc (Suc 0))))))))"

subsection \<open>C strings\<close>

text \<open>
  A \<^verbatim>\<open>const char*\<close> argument is modelled by its contents, the characters before the
  terminating NUL. \<open>strcmp_is_0 m s p\<close> is the test \<^verbatim>\<open>!strcmp(s, p)\<close> against the string
  stored at address \<open>p\<close>: bytes are compared in turn, the comparison stops at the first
  difference or at a common NUL. \<open>stricmp_is_0\<close> is \<^verbatim>\<open>!_stricmp(p, s)\<close>, which compares
  after mapping \<^verbatim>\<open>A..Z\<close> to lower case (the "C" locale).
\<close>

fun strcmp_is_0 :: "memory \<Rightarrow> string \<Rightarrow> addr \<Rightarrow> bool outcome" where
  "strcmp_is_0 m [] p =
     (case m p of None \<Rightarrow> AccessViolation | Some b \<Rightarrow> Ret (b = 0))"
| "strcmp_is_0 m (c # cs) p =
     (case m p of
        None \<Rightarrow> AccessViolation
      | Some b \<Rightarrow>
          if of_char c \<noteq> b then Ret False
          else if b = 0 then Ret True
          else strcmp_is_0 m cs (p + 1))"

definition tolower :: "byte \<Rightarrow> byte" where
  "tolower b = (if 65 \<le> b \<and> b \<le> 90 then b + 32 else b)"

fun stricmp_is_0 :: "memory \<Rightarrow> addr \<Rightarrow> string \<Rightarrow> bool outcome" where
  "stricmp_is_0 m p [] =
     (case m p of None \<Rightarrow> AccessViolation | Some b \<Rightarrow> Ret (tolower b = 0))"
| "stricmp_is_0 m p (c # cs) =
     (case m p of
        None \<Rightarrow> AccessViolation
      | Some b \<Rightarrow>
          if tolower b \<noteq> tolower (of_char c) then Ret False
          else if tolower b = 0 then Ret True
          else stricmp_is_0 m (p + 1) cs)"

text \<open>\<open>cstr_at m p s\<close>: the NUL-terminated string \<open>s\<close> is stored at address \<open>p\<close>.\<close>

fun cstr_at :: "memory \<Rightarrow> addr \<Rightarrow> string \<Rightarrow> bool" where
  "cstr_at m p [] = (m p = Some 0)"
| "cstr_at m p (c # cs) =
     ((of_char c :: byte) \<noteq> 0 \<and> m p = Some (of_char c) \<and> cstr_at m (p + 1) cs)"

section \<open>PE image headers\<close>

text \<open>
  Field offsets of the Windows SDK structures the source reads (\<^verbatim>\<open>Windows.h\<close>, x64):
  \<^verbatim>\<open>IMAGE_DOS_HEADER.e_lfanew\<close> is a signed 32-bit field at offset 60;
  in \<^verbatim>\<open>IMAGE_NT_HEADERS64\<close> the field \<^verbatim>\<open>FileHeader.Machine\<close> is at offset 4 and
  \<^verbatim>\<open>OptionalHeader.DataDirectory[k].VirtualAddress\<close> at offset \<open>136 + 8 * k\<close>, with
  \<^verbatim>\<open>IMAGE_DIRECTORY_ENTRY_EXPORT = 0\<close> and \<^verbatim>\<open>IMAGE_DIRECTORY_ENTRY_IMPORT = 1\<close>.
\<close>

definition IMAGE_FILE_MACHINE_AMD64 :: u16 where
  "IMAGE_FILE_MACHINE_AMD64 = 0x8664"

text \<open>\<^verbatim>\<open>base + dosHeader->e_lfanew\<close>: the address of the NT headers.\<close>

definition ntHeader :: "memory \<Rightarrow> addr \<Rightarrow> addr outcome" where
  "ntHeader m base =
     (case read32 m (base + 60) of
        AccessViolation \<Rightarrow> AccessViolation
      | Ret e_lfanew \<Rightarrow> Ret (base + scast e_lfanew))"

text \<open>\<^verbatim>\<open>base + ntHeader->OptionalHeader.DataDirectory[k].VirtualAddress\<close>.\<close>

definition dataDirectory :: "memory \<Rightarrow> addr \<Rightarrow> addr \<Rightarrow> addr outcome" where
  "dataDirectory m base k =
     (case ntHeader m base of
        AccessViolation \<Rightarrow> AccessViolation
      | Ret nt \<Rightarrow>
          (case read32 m (nt + 136 + 8 * k) of
             AccessViolation \<Rightarrow> AccessViolation
           | Ret VirtualAddress \<Rightarrow> Ret (base + ucast VirtualAddress)))"

section \<open>getResourceLibraryProcAddress and is64BitDLL\<close>

text \<open>
  \<^verbatim>\<open>IMAGE_EXPORT_DIRECTORY\<close>: \<^verbatim>\<open>NumberOfFunctions\<close> at offset 20, \<^verbatim>\<open>NumberOfNames\<close> at 24,
  \<^verbatim>\<open>AddressOfFunctions\<close> at 28, \<^verbatim>\<open>AddressOfNames\<close> at 32, \<^verbatim>\<open>AddressOfNameOrdinals\<close> at 36.

  \<open>export_arrays\<close> is the prologue of \<^verbatim>\<open>getResourceLibraryProcAddress\<close>: the pointers
  \<^verbatim>\<open>exportTable\<close>, \<^verbatim>\<open>exportAddresses\<close>, \<^verbatim>\<open>exportNameOrdinals\<close> and \<^verbatim>\<open>exportNames\<close>, in the
  order the source computes them.
\<close>

definition export_arrays :: "memory \<Rightarrow> addr \<Rightarrow> (addr \<times> addr \<times> addr \<times> addr) outcome" where
  "export_arrays m base =
     (case dataDirectory m base 0 of
        AccessViolation \<Rightarrow> AccessViolation
      | Ret exportTable \<Rightarrow>
          (case read32 m (exportTable + 28) of
             AccessViolation \<Rightarrow> AccessViolation
           | Ret AddressOfFunctions \<Rightarrow>
               (case read32 m (exportTable + 36) of
                  AccessViolation \<Rightarrow> AccessViolation
                | Ret AddressOfNameOrdinals \<Rightarrow>
                    (case read32 m (exportTable + 32) of
                       AccessViolation \<Rightarrow> AccessViolation
                     | Ret AddressOfNames \<Rightarrow>
                         Ret (exportTable,
                              base + ucast AddressOfFunctions,
                              base + ucast AddressOfNameOrdinals,
                              base + ucast AddressOfNames)))))"

text \<open>
  The test of the loop body at index \<open>i\<close>: as in the source, entry \<open>i\<close> of the export
  directory has the name whose RVA is \<^verbatim>\<open>exportNames[exportNameOrdinals[i]]\<close>; an entry
  whose name ordinal is not below \<^verbatim>\<open>NumberOfNames\<close> has no name. \<open>Ret True\<close>: the entry is
  named \<open>exportName\<close>.
\<close>

definition export_entry_named ::
  "memory \<Rightarrow> addr \<Rightarrow> addr \<Rightarrow> addr \<Rightarrow> addr \<Rightarrow> string \<Rightarrow> u32 \<Rightarrow> bool outcome" where
  "export_entry_named m base exportTable exportNameOrdinals exportNames exportName i =
     (case read16 m (exportNameOrdinals + 2 * ucast i) of
        AccessViolation \<Rightarrow> AccessViolation
      | Ret nameOrdinal \<Rightarrow>
          (case read32 m (exportTable + 24) of
             AccessViolation \<Rightarrow> AccessViolation
           | Ret NumberOfNames \<Rightarrow>
               if (ucast nameOrdinal :: u32) < NumberOfNames then
                 (case read32 m (exportNames + 4 * ucast nameOrdinal) of
                    AccessViolation \<Rightarrow> AccessViolation
                  | Ret nameRVA \<Rightarrow> strcmp_is_0 m exportName (base + ucast nameRVA))
               else Ret False))"

text \<open>
  The \<^verbatim>\<open>for\<close> loop, from index \<open>i\<close> on. The result is a pointer, \<open>0\<close> for \<^verbatim>\<open>nullptr\<close>
  (the initial value of \<^verbatim>\<open>result\<close>); a match assigns
  \<^verbatim>\<open>base + exportAddresses[i]\<close> and leaves the loop.
\<close>

lemma unat_succ_less:
  fixes i n :: "'a::len word"
  assumes "i < n"
  shows "unat (i + 1) = Suc (unat i)"
proof -
  have "unat i < unat n"
    using assms by (simp add: word_less_nat_alt)
  moreover have "unat n < 2 ^ LENGTH('a)"
    by (rule unsigned_less)
  ultimately have "Suc (unat i) < 2 ^ LENGTH('a)"
    by linarith
  then show ?thesis
    by (simp add: unat_word_ariths)
qed

lemma u32_succ_measure:
  fixes i n :: u32
  assumes "i < n"
  shows "(4294967296 :: nat) - unat (i + 1) < 4294967296 - unat i"
proof -
  have "unat (i + 1) < 2 ^ 32"
    using unsigned_less [of "i + 1"] by simp
  then show ?thesis
    using unat_succ_less [OF assms] by simp
qed

function export_loop ::
  "memory \<Rightarrow> addr \<Rightarrow> addr \<Rightarrow> addr \<Rightarrow> addr \<Rightarrow> addr \<Rightarrow> string \<Rightarrow> u32 \<Rightarrow> addr outcome" where
  "export_loop m base exportTable exportAddresses exportNameOrdinals exportNames exportName i =
     (case read32 m (exportTable + 20) of
        AccessViolation \<Rightarrow> AccessViolation
      | Ret NumberOfFunctions \<Rightarrow>
          if i < NumberOfFunctions then
            (case export_entry_named m base exportTable exportNameOrdinals exportNames
                    exportName i of
               AccessViolation \<Rightarrow> AccessViolation
             | Ret True \<Rightarrow>
                 (case read32 m (exportAddresses + 4 * ucast i) of
                    AccessViolation \<Rightarrow> AccessViolation
                  | Ret addrRVA \<Rightarrow> Ret (base + ucast addrRVA))
             | Ret False \<Rightarrow>
                 export_loop m base exportTable exportAddresses exportNameOrdinals
                   exportNames exportName (i + 1))
          else Ret 0)"
  by pat_completeness auto
termination
  by (relation "measure (\<lambda>(m, base, et, ea, eo, en, nm, i). 4294967296 - unat i)")
    (simp_all add: u32_succ_measure)

declare export_loop.simps [simp del]

definition getResourceLibraryProcAddress :: "memory \<Rightarrow> addr \<Rightarrow> string \<Rightarrow> addr outcome" where
  "getResourceLibraryProcAddress m module exportName =
     (let base = module AND NOT 3 in
      case export_arrays m base of
        AccessViolation \<Rightarrow> AccessViolation
      | Ret (exportTable, exportAddresses, exportNameOrdinals, exportNames) \<Rightarrow>
          export_loop m base exportTable exportAddresses exportNameOrdinals exportNames
            exportName 0)"

definition is64BitDLL :: "memory \<Rightarrow> addr \<Rightarrow> bool outcome" where
  "is64BitDLL m module =
     (let base = module AND NOT 3 in
      case ntHeader m base of
        AccessViolation \<Rightarrow> AccessViolation
      | Ret nt \<Rightarrow>
          (case read16 m (nt + 4) of
             AccessViolation \<Rightarrow> AccessViolation
           | Ret Machine \<Rightarrow> Ret (Machine = IMAGE_FILE_MACHINE_AMD64)))"

section \<open>getIATAddr\<close>

text \<open>
  \<^verbatim>\<open>IMAGE_IMPORT_DESCRIPTOR\<close> (20 bytes): \<^verbatim>\<open>Characteristics\<close> and \<^verbatim>\<open>OriginalFirstThunk\<close> share
  offset 0, \<^verbatim>\<open>Name\<close> is at offset 12 and \<^verbatim>\<open>FirstThunk\<close> at 16. \<^verbatim>\<open>IMAGE_THUNK_DATA64\<close> is one
  64-bit word (\<^verbatim>\<open>u1.Ordinal\<close>, \<^verbatim>\<open>u1.AddressOfData\<close>); \<^verbatim>\<open>IMAGE_SNAP_BY_ORDINAL\<close> tests its top
  bit. In \<^verbatim>\<open>IMAGE_IMPORT_BY_NAME\<close> the field \<^verbatim>\<open>Name\<close> follows the 16-bit \<^verbatim>\<open>Hint\<close>.

  \<open>import_thunk_named\<close> is the test the inner loop makes at \<^verbatim>\<open>thunkData\<close>: \<open>Ret None\<close> when
  the thunk is the terminator (the loop condition fails), \<open>Ret (Some True)\<close> when it is a
  by-name thunk whose name equals \<^verbatim>\<open>searchImportName\<close> up to case, \<open>Ret (Some False)\<close> for
  a by-ordinal thunk or another name.
\<close>

definition IMAGE_ORDINAL_FLAG64 :: u64 where
  "IMAGE_ORDINAL_FLAG64 = 0x8000000000000000"

definition import_thunk_named :: "memory \<Rightarrow> addr \<Rightarrow> string \<Rightarrow> addr \<Rightarrow> bool option outcome" where
  "import_thunk_named m base searchImportName thunkData =
     (case read64 m thunkData of
        AccessViolation \<Rightarrow> AccessViolation
      | Ret Ordinal \<Rightarrow>
          if Ordinal = 0 then Ret None
          else if Ordinal AND IMAGE_ORDINAL_FLAG64 = 0 then
            (case stricmp_is_0 m (base + Ordinal + 2) searchImportName of
               AccessViolation \<Rightarrow> AccessViolation
             | Ret r \<Rightarrow> Ret (Some r))
          else Ret (Some False))"

text \<open>
  The inner loop: \<^verbatim>\<open>thunkData\<close> and \<^verbatim>\<open>iat\<close> advance together; a match returns \<^verbatim>\<open>iat\<close>, the
  address of the cell (the cell is not read); the terminator returns \<^verbatim>\<open>nullptr\<close>. Neither
  loop has a bound, so a scan that never ends is the value \<open>None\<close>.
\<close>

partial_function (option) thunk_loop ::
  "memory \<Rightarrow> addr \<Rightarrow> string \<Rightarrow> addr \<Rightarrow> addr \<Rightarrow> addr outcome option" where
  "thunk_loop m base searchImportName thunkData iat =
     (case import_thunk_named m base searchImportName thunkData of
        AccessViolation \<Rightarrow> Some AccessViolation
      | Ret None \<Rightarrow> Some (Ret 0)
      | Ret (Some found) \<Rightarrow>
          if found then Some (Ret iat)
          else thunk_loop m base searchImportName (thunkData + 8) (iat + 8))"

text \<open>
  The test of the outer loop at \<^verbatim>\<open>importTable\<close>: \<open>Ret None\<close> when \<^verbatim>\<open>Characteristics\<close> is zero
  (end of the directory), otherwise whether the descriptor's DLL name equals
  \<^verbatim>\<open>searchDllName\<close> up to case.
\<close>

definition import_descriptor_named :: "memory \<Rightarrow> addr \<Rightarrow> string \<Rightarrow> addr \<Rightarrow> bool option outcome" where
  "import_descriptor_named m base searchDllName importTable =
     (case read32 m importTable of
        AccessViolation \<Rightarrow> AccessViolation
      | Ret Characteristics \<Rightarrow>
          if Characteristics = 0 then Ret None
          else
            (case read32 m (importTable + 12) of
               AccessViolation \<Rightarrow> AccessViolation
             | Ret Name \<Rightarrow>
                 (case stricmp_is_0 m (base + ucast Name) searchDllName of
                    AccessViolation \<Rightarrow> AccessViolation
                  | Ret r \<Rightarrow> Ret (Some r))))"

text \<open>
  The outer loop. The first descriptor whose name matches decides the result: its thunk
  array is scanned and the function returns, whatever follows in the directory.
\<close>

partial_function (option) descriptor_loop ::
  "memory \<Rightarrow> addr \<Rightarrow> string \<Rightarrow> string \<Rightarrow> addr \<Rightarrow> addr outcome option" where
  "descriptor_loop m base searchDllName searchImportName importTable =
     (case import_descriptor_named m base searchDllName importTable of
        AccessViolation \<Rightarrow> Some AccessViolation
      | Ret None \<Rightarrow> Some (Ret 0)
      | Ret (Some found) \<Rightarrow>
          if found then
            (case read32 m importTable of
               AccessViolation \<Rightarrow> Some AccessViolation
             | Ret OriginalFirstThunk \<Rightarrow>
                 (case read32 m (importTable + 16) of
                    AccessViolation \<Rightarrow> Some AccessViolation
                  | Ret FirstThunk \<Rightarrow>
                      thunk_loop m base searchImportName
                        (base + ucast OriginalFirstThunk) (base + ucast FirstThunk)))
          else descriptor_loop m base searchDllName searchImportName (importTable + 20))"

definition getIATAddr :: "memory \<Rightarrow> addr \<Rightarrow> string \<Rightarrow> string \<Rightarrow> addr outcome option" where
  "getIATAddr m module searchDllName searchImportName =
     (case dataDirectory m module 1 of
        AccessViolation \<Rightarrow> Some AccessViolation
      | Ret importTable \<Rightarrow> descriptor_loop m module searchDllName searchImportName importTable)"

section \<open>getObjectClassName\<close>

text \<open>
  The function returns a \<^verbatim>\<open>const char*\<close>: either the address of the string literal
  \<^verbatim>\<open>"<no rtti>"\<close> of the source (\<open>Literal\<close>, with the literal's text) or a pointer into the
  process memory (\<open>CharPtr\<close>).
\<close>

datatype cstr = Literal string | CharPtr addr

text \<open>
  Layout of the two structs of the source (x64): in \<^verbatim>\<open>RTTILocator\<close> the field \<^verbatim>\<open>typeDesc\<close> is
  at offset 12; in \<^verbatim>\<open>RTTIType\<close> the array \<^verbatim>\<open>name\<close> is at offset 16.

  Modelled from the spec: \<^verbatim>\<open>RelocPtr\<close> (\<^verbatim>\<open>sfse_common/Relocation.h\<close> is not among the source
  files). The spec says the type-name pointer is resolved as a relative pointer: a
  \<^verbatim>\<open>RelocPtr\<close> built from an offset points to \<^verbatim>\<open>RelocationManager::s_baseAddr\<close> plus the
  offset; the base address is a parameter.

  \<open>rtti_type_name\<close> is the pointer chase \<^verbatim>\<open>obj[0]\<close>, \<^verbatim>\<open>vtbl[-1]\<close>, \<^verbatim>\<open>rtti->typeDesc\<close>; its
  result is the address of \<^verbatim>\<open>type->name\<close>.
\<close>

definition rtti_type_name :: "addr \<Rightarrow> memory \<Rightarrow> addr \<Rightarrow> addr outcome" where
  "rtti_type_name s_baseAddr m objBase =
     (case read64 m objBase of
        AccessViolation \<Rightarrow> AccessViolation
      | Ret vtbl \<Rightarrow>
          (case read64 m (vtbl - 8) of
             AccessViolation \<Rightarrow> AccessViolation
           | Ret rtti \<Rightarrow>
               (case read32 m (rtti + 12) of
                  AccessViolation \<Rightarrow> AccessViolation
                | Ret typeDesc \<Rightarrow> Ret (ucast typeDesc + s_baseAddr + 16))))"

text \<open>
  The \<^verbatim>\<open>for\<close> loop over the first 100 characters of the name, from index \<open>i\<close> on: at the
  first NUL the result becomes \<^verbatim>\<open>type->name + 4\<close>; without one it keeps its value.
\<close>

function name_scan :: "memory \<Rightarrow> addr \<Rightarrow> cstr \<Rightarrow> nat \<Rightarrow> cstr outcome" where
  "name_scan m name result i =
     (if i < 100 then
        (case m (name + of_nat i) of
           None \<Rightarrow> AccessViolation
         | Some c \<Rightarrow> if c = 0 then Ret (CharPtr (name + 4)) else name_scan m name result (i + 1))
      else Ret result)"
  by pat_completeness auto
termination
  by (relation "measure (\<lambda>(m, name, result, i). 100 - i)") simp_all

declare name_scan.simps [simp del]

text \<open>The body of the \<^verbatim>\<open>__try\<close> block; \<open>result\<close> is the value of the variable on entry.\<close>

definition class_name_walk :: "addr \<Rightarrow> memory \<Rightarrow> addr \<Rightarrow> cstr \<Rightarrow> cstr outcome" where
  "class_name_walk s_baseAddr m objBase result =
     (case rtti_type_name s_baseAddr m objBase of
        AccessViolation \<Rightarrow> AccessViolation
      | Ret name \<Rightarrow>
          (case m name of
             None \<Rightarrow> AccessViolation
           | Some c0 \<Rightarrow>
               if c0 = of_char CHR ''.'' then
                 (case m (name + 1) of
                    None \<Rightarrow> AccessViolation
                  | Some c1 \<Rightarrow>
                      if c1 = of_char CHR ''?'' then name_scan m name result 0 else Ret result)
               else Ret result))"

text \<open>
  \<^verbatim>\<open>__except (EXCEPTION_EXECUTE_HANDLER)\<close> handles every access violation of the block:
  the function then returns the initial value of \<^verbatim>\<open>result\<close>.
\<close>

definition getObjectClassName :: "addr \<Rightarrow> memory \<Rightarrow> addr \<Rightarrow> cstr" where
  "getObjectClassName s_baseAddr m objBase =
     (let result = Literal ''<no rtti>'' in
      case class_name_walk s_baseAddr m objBase result of
        AccessViolation \<Rightarrow> result
      | Ret r \<Rightarrow> r)"

section \<open>Patching memory\<close>

text \<open>
  Modelled from the spec: \<^verbatim>\<open>safeWrite64\<close> (\<^verbatim>\<open>sfse_common/SafeWrite.cpp\<close> is not among the
  source files). The spec's patcher makes the pages covering the range writable, copies
  the bytes in and restores the protection; a pointer-sized write is the byte-range
  patch of the eight little-endian bytes of the value. \<open>store_bytes\<close> is the copy of a
  byte range into memory, \<open>le_bytes n v\<close> the first \<open>n\<close> little-endian bytes of \<open>v\<close>.
\<close>

fun store_bytes :: "addr \<Rightarrow> byte list \<Rightarrow> memory \<Rightarrow> memory" where
  "store_bytes p [] m = m"
| "store_bytes p (b # bs) m = store_bytes (p + 1) bs (m(p \<mapsto> b))"

fun le_bytes :: "nat \<Rightarrow> 'a::len word \<Rightarrow> byte list" where
  "le_bytes 0 v = []"
| "le_bytes (Suc n) v = ucast v # le_bytes n (drop_bit 8 v)"

definition safeWrite64 :: "addr \<Rightarrow> u64 \<Rightarrow> memory \<Rightarrow> memory" where
  "safeWrite64 p data m = store_bytes p (le_bytes 8 data) m"

section \<open>The start-up hooks of sfse.cpp\<close>

text \<open>
  \<^verbatim>\<open>sfse.cpp\<close> calls into the operating system, the trampolines, the plugin manager and the
  log, none of which is among the source files. Each such call is recorded as an event
  of a trace, in program order, with the result it gave; what a call returns is decided
  by the environment, as a function of the trace so far. \<^verbatim>\<open>_MESSAGE\<close> and \<^verbatim>\<open>_ERROR\<close> are
  \<open>Log\<close> events with their level and format string (the arguments are not modelled).
\<close>

datatype LogLevel =
  kLevel_FatalError | kLevel_Error | kLevel_Warning | kLevel_Message
  | kLevel_VerboseMessage | kLevel_DebugMessage

datatype phase = kPhase_Preload | kPhase_Load

text \<open>
  A call the host makes through one of the two hooked import slots, with its arguments,
  and the value such a call returns (\<^verbatim>\<open>int\<close> or \<^verbatim>\<open>char*\<close>).
\<close>

datatype call = CRT_initterm_e addr addr | CRT_get_narrow_winmain_command_line

datatype retval = Int32 u32 | Pointer addr

datatype event =
    Log LogLevel string
  | DebugLog_open
  | DebugLog_flush
  | GetSystemTime
  | BranchTrampoline_create nat bool
  | LocalTrampoline_create nat bool
  | PluginManager_init
  | PluginManager_installPlugins phase
  | PluginManager_loadComplete
  | Hooks_Version_Apply
  | Hooks_Script_Apply
  | FlushInstructionCache
  | Call_Original addr call retval

text \<open>
  The environment: whether \<^verbatim>\<open>SHGetFolderPath\<close> succeeds, what the two \<^verbatim>\<open>create\<close> calls
  return, what the original C run-time functions return (given the function pointer
  called and the arguments), and the addresses of the two hook functions.
\<close>

record env =
  env_SHGetFolderPath_succeeds :: bool
  env_branchTrampoline_create :: "nat \<Rightarrow> event list \<Rightarrow> bool"
  env_localTrampoline_create :: "nat \<Rightarrow> event list \<Rightarrow> bool"
  env_initterm_e :: "addr \<Rightarrow> addr \<Rightarrow> addr \<Rightarrow> event list \<Rightarrow> u32"
  env_get_narrow_winmain_command_line :: "addr \<Rightarrow> event list \<Rightarrow> addr"
  env_initterm_e_Hook :: addr
  env_get_narrow_winmain_command_line_Hook :: addr

text \<open>
  The state: the process memory, the two saved originals (\<^verbatim>\<open>_initterm_e_Original\<close>,
  \<^verbatim>\<open>_get_narrow_winmain_command_line_Original\<close>), the \<^verbatim>\<open>static bool runOnce\<close> of
  \<^verbatim>\<open>SFSE_Preinit\<close> and of \<^verbatim>\<open>SFSE_Initialize\<close>, and the trace.
\<close>

record sfse_state =
  proc_mem :: memory
  initterm_e_Original :: addr
  get_narrow_winmain_command_line_Original :: addr
  Preinit_runOnce :: bool
  Initialize_runOnce :: bool
  trace :: "event list"

definition emit :: "event \<Rightarrow> sfse_state \<Rightarrow> sfse_state" where
  "emit e s = s\<lparr>trace := trace s @ [e]\<rparr>"

definition msg_runtime :: string where
  "msg_runtime = ''SFSE runtime: initialize (version = %d.%d.%d %08X %04d-%02d-%02d %02d:%02d:%02d, os = %s)''"

definition msg_no_branch_trampoline :: string where
  "msg_no_branch_trampoline =
     ''couldn't create branch trampoline. this is fatal. skipping remainder of init process.''"

definition msg_no_codegen_buffer :: string where
  "msg_no_codegen_buffer =
     ''couldn't create codegen buffer. this is fatal. skipping remainder of init process.''"

text \<open>
  \<^verbatim>\<open>SFSE_Preinit\<close>, release build (the \<^verbatim>\<open>_DEBUG\<close> block, which waits for a debugger, is
  compiled out).
\<close>

definition SFSE_Preinit :: "env \<Rightarrow> sfse_state \<Rightarrow> sfse_state" where
  "SFSE_Preinit env s =
     (if Preinit_runOnce s then s
      else
        let s1 = s\<lparr>Preinit_runOnce := True\<rparr>;
            s2 = emit GetSystemTime s1;
            s3 = emit (Log kLevel_Message msg_runtime) s2;
            s4 = emit (Log kLevel_Message ''imagebase = %016I64X'') s3;
            s5 = emit (Log kLevel_Message ''reloc mgr imagebase = %016I64X'') s4;
            branch_ok = env_branchTrampoline_create env (1024 * 64) (trace s5);
            s6 = emit (BranchTrampoline_create (1024 * 64) branch_ok) s5
        in
          if \<not> branch_ok then emit (Log kLevel_Error msg_no_branch_trampoline) s6
          else
            let local_ok = env_localTrampoline_create env (1024 * 64) (trace s6);
                s7 = emit (LocalTrampoline_create (1024 * 64) local_ok) s6
            in
              if \<not> local_ok then emit (Log kLevel_Error msg_no_codegen_buffer) s7
              else
                let s8 = emit PluginManager_init s7;
                    s9 = emit (PluginManager_installPlugins kPhase_Preload) s8
                in emit (Log kLevel_Message ''preinit complete'') s9)"

definition SFSE_Initialize :: "sfse_state \<Rightarrow> sfse_state" where
  "SFSE_Initialize s =
     (if Initialize_runOnce s then s
      else
        let s1 = s\<lparr>Initialize_runOnce := True\<rparr>;
            s2 = emit (PluginManager_installPlugins kPhase_Load) s1;
            s3 = emit PluginManager_loadComplete s2;
            s4 = emit Hooks_Version_Apply s3;
            s5 = emit Hooks_Script_Apply s4;
            s6 = emit FlushInstructionCache s5;
            s7 = emit (Log kLevel_Message ''init complete'') s6
        in emit DebugLog_flush s7)"

text \<open>
  The two replacement functions: the one-time work first, then the call of the saved
  original with the arguments received; its result is returned.
\<close>

definition initterm_e_Hook :: "env \<Rightarrow> addr \<Rightarrow> addr \<Rightarrow> sfse_state \<Rightarrow> u32 \<times> sfse_state" where
  "initterm_e_Hook env a b s =
     (let s1 = SFSE_Preinit env s;
          r = env_initterm_e env (initterm_e_Original s1) a b (trace s1)
      in (r, emit (Call_Original (initterm_e_Original s1) (CRT_initterm_e a b) (Int32 r)) s1))"

definition get_narrow_winmain_command_line_Hook :: "env \<Rightarrow> sfse_state \<Rightarrow> addr \<times> sfse_state" where
  "get_narrow_winmain_command_line_Hook env s =
     (let s1 = SFSE_Initialize s;
          r = env_get_narrow_winmain_command_line env
                (get_narrow_winmain_command_line_Original s1) (trace s1)
      in (r, emit (Call_Original (get_narrow_winmain_command_line_Original s1)
                     CRT_get_narrow_winmain_command_line (Pointer r)) s1))"

text \<open>The host calling through the hooked slots, one call after the other.\<close>

fun host_call :: "env \<Rightarrow> call \<Rightarrow> sfse_state \<Rightarrow> retval \<times> sfse_state" where
  "host_call env (CRT_initterm_e a b) s =
     (case initterm_e_Hook env a b s of (r, s') \<Rightarrow> (Int32 r, s'))"
| "host_call env CRT_get_narrow_winmain_command_line s =
     (case get_narrow_winmain_command_line_Hook env s of (r, s') \<Rightarrow> (Pointer r, s'))"

fun host_calls :: "env \<Rightarrow> call list \<Rightarrow> sfse_state \<Rightarrow> retval list \<times> sfse_state" where
  "host_calls env [] s = ([], s)"
| "host_calls env (c # cs) s =
     (case host_call env c s of
        (r, s') \<Rightarrow> (case host_calls env cs s' of (rs, s'') \<Rightarrow> (r # rs, s'')))"

text \<open>The DLL both functions are imported from.\<close>

definition crt_dll :: string where
  "crt_dll = ''api-ms-win-crt-runtime-l1-1-0.dll''"

text \<open>
  \<^verbatim>\<open>installBaseHooks\<close>. It ends in one of three ways: a failed assertion (the
  \<^verbatim>\<open>ASSERT_CODE\<close> of \<^verbatim>\<open>DebugLog::openRelative\<close> in \<^verbatim>\<open>Log.cpp\<close>, taken to end the process), an
  unhandled access violation, or a normal return.
\<close>

datatype 'a completion = AssertionFailed | Faulted | Returned 'a

definition DebugLog_openRelative :: "env \<Rightarrow> sfse_state \<Rightarrow> sfse_state option" where
  "DebugLog_openRelative env s =
     (if env_SHGetFolderPath_succeeds env then Some (emit DebugLog_open s) else None)"

text \<open>
  The two \<^verbatim>\<open>if\<close> statements: a resolved slot is read (the original is saved) and
  overwritten with the address of the hook; for an unresolved one the error is logged.
\<close>

definition hook_initterm_e :: "env \<Rightarrow> addr \<Rightarrow> sfse_state \<Rightarrow> sfse_state outcome" where
  "hook_initterm_e env initterm s =
     (if initterm \<noteq> 0 then
        (case read64 (proc_mem s) initterm of
           AccessViolation \<Rightarrow> AccessViolation
         | Ret original \<Rightarrow>
             Ret (s\<lparr>initterm_e_Original := original,
                    proc_mem := safeWrite64 initterm (env_initterm_e_Hook env) (proc_mem s)\<rparr>))
      else Ret (emit (Log kLevel_Error ''couldn't find _initterm_e'') s))"

definition hook_get_narrow_winmain_command_line ::
  "env \<Rightarrow> addr \<Rightarrow> sfse_state \<Rightarrow> sfse_state outcome" where
  "hook_get_narrow_winmain_command_line env cmdline s =
     (if cmdline \<noteq> 0 then
        (case read64 (proc_mem s) cmdline of
           AccessViolation \<Rightarrow> AccessViolation
         | Ret original \<Rightarrow>
             Ret (s\<lparr>get_narrow_winmain_command_line_Original := original,
                    proc_mem := safeWrite64 cmdline
                      (env_get_narrow_winmain_command_line_Hook env) (proc_mem s)\<rparr>))
      else Ret (emit (Log kLevel_Error ''couldn't find _get_narrow_winmain_command_line'') s))"

text \<open>
  \<open>exe\<close> is \<^verbatim>\<open>GetModuleHandle(nullptr)\<close>. Both slots are looked up before either is
  written. \<open>None\<close>: a scan of the import directory does not end.
\<close>

definition installBaseHooks :: "env \<Rightarrow> addr \<Rightarrow> sfse_state \<Rightarrow> sfse_state completion option" where
  "installBaseHooks env exe s =
     (case DebugLog_openRelative env s of
        None \<Rightarrow> Some AssertionFailed
      | Some s0 \<Rightarrow>
          (case getIATAddr (proc_mem s0) exe crt_dll ''_initterm_e'' of
             None \<Rightarrow> None
           | Some AccessViolation \<Rightarrow> Some Faulted
           | Some (Ret initterm) \<Rightarrow>
               (case getIATAddr (proc_mem s0) exe crt_dll
                       ''_get_narrow_winmain_command_line'' of
                  None \<Rightarrow> None
                | Some AccessViolation \<Rightarrow> Some Faulted
                | Some (Ret cmdline) \<Rightarrow>
                    (case hook_initterm_e env initterm s0 of
                       AccessViolation \<Rightarrow> Some Faulted
                     | Ret s1 \<Rightarrow>
                         (case hook_get_narrow_winmain_command_line env cmdline s1 of
                            AccessViolation \<Rightarrow> Some Faulted
                          | Ret s2 \<Rightarrow> Some (Returned s2))))))"

section \<open>Reading the trace\<close>

text \<open>
  The events of one run of the body of \<^verbatim>\<open>SFSE_Preinit\<close>, by the results of the two
  \<^verbatim>\<open>create\<close> calls, and of the body of \<^verbatim>\<open>SFSE_Initialize\<close>.
\<close>

definition preinit_events :: "bool \<Rightarrow> bool \<Rightarrow> event list" where
  "preinit_events branch_ok local_ok =
     [GetSystemTime, Log kLevel_Message msg_runtime,
      Log kLevel_Message ''imagebase = %016I64X'',
      Log kLevel_Message ''reloc mgr imagebase = %016I64X'',
      BranchTrampoline_create (1024 * 64) branch_ok] @
     (if \<not> branch_ok then [Log kLevel_Error msg_no_branch_trampoline]
      else LocalTrampoline_create (1024 * 64) local_ok #
        (if \<not> local_ok then [Log kLevel_Error msg_no_codegen_buffer]
         else [PluginManager_init, PluginManager_installPlugins kPhase_Preload,
               Log kLevel_Message ''preinit complete'']))"

definition initialize_events :: "event list" where
  "initialize_events =
     [PluginManager_installPlugins kPhase_Load, PluginManager_loadComplete,
      Hooks_Version_Apply, Hooks_Script_Apply, FlushInstructionCache,
      Log kLevel_Message ''init complete'', DebugLog_flush]"

text \<open>
  Every event is emitted by \<^verbatim>\<open>SFSE_Preinit\<close>, by \<^verbatim>\<open>SFSE_Initialize\<close> or by a hook calling
  its original.
\<close>

fun preinit_event :: "event \<Rightarrow> bool" where
  "preinit_event GetSystemTime = True"
| "preinit_event (BranchTrampoline_create n ok) = True"
| "preinit_event (LocalTrampoline_create n ok) = True"
| "preinit_event PluginManager_init = True"
| "preinit_event (PluginManager_installPlugins p) = (p = kPhase_Preload)"
| "preinit_event (Log l msg) = (msg \<noteq> ''init complete'')"
| "preinit_event e = False"

fun initialize_event :: "event \<Rightarrow> bool" where
  "initialize_event (PluginManager_installPlugins p) = (p = kPhase_Load)"
| "initialize_event PluginManager_loadComplete = True"
| "initialize_event Hooks_Version_Apply = True"
| "initialize_event Hooks_Script_Apply = True"
| "initialize_event FlushInstructionCache = True"
| "initialize_event DebugLog_flush = True"
| "initialize_event (Log l msg) = (msg = ''init complete'')"
| "initialize_event e = False"

fun original_call :: "event \<Rightarrow> bool" where
  "original_call (Call_Original f c r) = True"
| "original_call e = False"

fun is_initterm_e :: "call \<Rightarrow> bool" where
  "is_initterm_e (CRT_initterm_e a b) = True"
| "is_initterm_e CRT_get_narrow_winmain_command_line = False"

text \<open>
  The saved original a call goes to, what the environment returns for it after the
  events \<open>before\<close>, and the property of a stretch of trace that every recorded call of
  an original carries the result the original gave at that point.
\<close>

fun saved_original :: "sfse_state \<Rightarrow> call \<Rightarrow> addr" where
  "saved_original s (CRT_initterm_e a b) = initterm_e_Original s"
| "saved_original s CRT_get_narrow_winmain_command_line =
     get_narrow_winmain_command_line_Original s"

fun original_result :: "env \<Rightarrow> addr \<Rightarrow> call \<Rightarrow> event list \<Rightarrow> retval" where
  "original_result env f (CRT_initterm_e a b) before = Int32 (env_initterm_e env f a b before)"
| "original_result env f CRT_get_narrow_winmain_command_line before =
     Pointer (env_get_narrow_winmain_command_line env f before)"

fun results_of_originals :: "env \<Rightarrow> event list \<Rightarrow> event list \<Rightarrow> bool" where
  "results_of_originals env before [] = True"
| "results_of_originals env before (e # es) =
     ((case e of Call_Original f c r \<Rightarrow> r = original_result env f c before | _ \<Rightarrow> True) \<and>
      results_of_originals env (before @ [e]) es)"

text \<open>An attempt to create the branch trampoline, or the codegen buffer, whatever its result.\<close>

fun branch_create_event :: "event \<Rightarrow> bool" where
  "branch_create_event (BranchTrampoline_create n ok) = True"
| "branch_create_event e = False"

fun local_create_event :: "event \<Rightarrow> bool" where
  "local_create_event (LocalTrampoline_create n ok) = True"
| "local_create_event e = False"

section \<open>Configuration lookup\<close>

text \<open>
  The configuration functions of \<^verbatim>\<open>Utilities.cpp\<close> rest on three calls of the platform,
  which the environment answers: \<^verbatim>\<open>GetModuleFileName\<close> (the path it stores; the empty path
  stands for a failed call, which returns 0), the profile look-up behind
  \<^verbatim>\<open>GetPrivateProfileString\<close> (the value of a key of a section of a file, \<open>None\<close> when the
  file, the section or the key does not exist) and \<^verbatim>\<open>sscanf_s\<close> with the format \<^verbatim>\<open>"%u"\<close>
  (\<open>Some v\<close> when one item is converted and \<open>v\<close> stored, \<open>None\<close> when nothing is stored).
\<close>

record config_env =
  env_GetModuleFileName :: string
  env_profile :: "string \<Rightarrow> string \<Rightarrow> string \<Rightarrow> string option"
  env_sscanf_u :: "string \<Rightarrow> u32 option"

text \<open>
  The function-local statics: \<^verbatim>\<open>appPath\<close> of \<^verbatim>\<open>getRuntimePath\<close>, \<^verbatim>\<open>s_runtimeDirectory\<close>,
  \<^verbatim>\<open>s_configPath\<close>; and the log.
\<close>

record config_state =
  appPath :: string
  s_runtimeDirectory :: string
  s_configPath :: string
  config_log :: "event list"

definition backslash :: char where
  "backslash = CHR 0x5C"

text \<open>\<^verbatim>\<open>std::string::rfind\<close>: the last index of the character, \<open>None\<close> for \<^verbatim>\<open>npos\<close>.\<close>

definition rfind :: "char \<Rightarrow> string \<Rightarrow> nat option" where
  "rfind c str = List.find (\<lambda>i. str ! i = c) (rev [0..<length str])"

text \<open>
  \<^verbatim>\<open>getRuntimePath\<close>. The \<^verbatim>\<open>ASSERT\<close> on the result of \<^verbatim>\<open>GetModuleFileName\<close> is taken to end the
  process when it fails: the functions return \<open>None\<close> then.
\<close>

definition getRuntimePath :: "config_env \<Rightarrow> config_state \<Rightarrow> (string \<times> config_state) option" where
  "getRuntimePath env s =
     (if appPath s \<noteq> [] then Some (appPath s, s)
      else if env_GetModuleFileName env = [] then None
      else Some (env_GetModuleFileName env, s\<lparr>appPath := env_GetModuleFileName env\<rparr>))"

definition getRuntimeDirectory ::
  "config_env \<Rightarrow> config_state \<Rightarrow> (string \<times> config_state) option" where
  "getRuntimeDirectory env s =
     (if s_runtimeDirectory s = [] then
        (case getRuntimePath env s of
           None \<Rightarrow> None
         | Some (runtimePath, s1) \<Rightarrow>
             (case rfind backslash runtimePath of
                Some lastSlash \<Rightarrow>
                  Some (take (lastSlash + 1) runtimePath,
                        s1\<lparr>s_runtimeDirectory := take (lastSlash + 1) runtimePath\<rparr>)
              | None \<Rightarrow>
                  Some ([], s1\<lparr>config_log := config_log s1 @
                          [Log kLevel_Warning ''no slash in runtime path? (%s)'']\<rparr>)))
      else Some (s_runtimeDirectory s, s))"

definition getConfigPath :: "config_env \<Rightarrow> config_state \<Rightarrow> (string \<times> config_state) option" where
  "getConfigPath env s =
     (if s_configPath s = [] then
        (case getRuntimeDirectory env s of
           None \<Rightarrow> None
         | Some (runtimePath, s1) \<Rightarrow>
             if runtimePath \<noteq> [] then
               (let p = runtimePath @ ''Data'' @ [backslash] @ ''SFSE'' @ [backslash] @ ''sfse.ini''
                in Some (p, s1\<lparr>s_configPath := p,
                               config_log := config_log s1 @
                                 [Log kLevel_Message ''config path = %s'']\<rparr>))
             else Some ([], s1))
      else Some (s_configPath s, s))"

text \<open>
  \<^verbatim>\<open>GetPrivateProfileString\<close> as the platform documents it: the value found, or the
  default string when the file or the key does not exist, cut to the buffer. The source
  passes \<^verbatim>\<open>NULL\<close> as the default, which stands for the empty string.
\<close>

definition GetPrivateProfileString ::
  "config_env \<Rightarrow> string \<Rightarrow> string \<Rightarrow> string \<Rightarrow> nat \<Rightarrow> string \<Rightarrow> string" where
  "GetPrivateProfileString env section key dflt nSize fileName =
     (case env_profile env fileName section key of
        None \<Rightarrow> take (nSize - 1) dflt
      | Some v \<Rightarrow> take (nSize - 1) v)"

definition getConfigOption ::
  "config_env \<Rightarrow> string \<Rightarrow> string \<Rightarrow> config_state \<Rightarrow> (string \<times> config_state) option" where
  "getConfigOption env section key s =
     (case getConfigPath env s of
        None \<Rightarrow> None
      | Some (configPath, s1) \<Rightarrow>
          if configPath \<noteq> [] then
            Some (GetPrivateProfileString env section key [] 256 configPath, s1)
          else Some ([], s1))"

text \<open>
  \<^verbatim>\<open>getConfigOption_u32\<close> takes the value \<^verbatim>\<open>*dataOut\<close> holds on entry and returns the result
  together with the value it holds on return.
\<close>

definition getConfigOption_u32 ::
  "config_env \<Rightarrow> string \<Rightarrow> string \<Rightarrow> u32 \<Rightarrow> config_state \<Rightarrow>
     ((bool \<times> u32) \<times> config_state) option" where
  "getConfigOption_u32 env section key dataOut s =
     (case getConfigOption env section key s of
        None \<Rightarrow> None
      | Some (data, s1) \<Rightarrow>
          if data = [] then Some ((False, dataOut), s1)
          else
            (case env_sscanf_u env data of
               Some v \<Rightarrow> Some ((True, v), s1)
             | None \<Rightarrow> Some ((False, dataOut), s1)))"

section \<open>Examples\<close>

text \<open>The concrete images below are built with \<open>store_bytes\<close> from the empty memory.\<close>

text \<open>
  A library image loaded at \<open>0x10000\<close>: \<^verbatim>\<open>e_lfanew = 0x40\<close>, export directory at RVA
  \<open>0x100\<close> with two functions (RVAs \<open>0x1000\<close>, \<open>0x2000\<close>) and two names, \<^verbatim>\<open>"Aa"\<close> at RVA
  \<open>0x170\<close> and \<^verbatim>\<open>"Bb"\<close> at RVA \<open>0x174\<close>; name ordinals \<open>0, 1\<close>. The machine field (at
  \<open>0x10044\<close>) is \<open>0x8664\<close>.
\<close>

definition export_image :: memory where
  "export_image =
     store_bytes 0x1003C [0x40, 0, 0, 0]
    (store_bytes 0x10044 [0x64, 0x86]
    (store_bytes 0x100C8 [0, 1, 0, 0]
    (store_bytes 0x10114 [2, 0, 0, 0,  2, 0, 0, 0,  0x40, 1, 0, 0,  0x50, 1, 0, 0,  0x60, 1, 0, 0]
    (store_bytes 0x10140 [0, 0x10, 0, 0,  0, 0x20, 0, 0]
    (store_bytes 0x10150 [0x70, 1, 0, 0,  0x74, 1, 0, 0]
    (store_bytes 0x10160 [0, 0, 1, 0]
    (store_bytes 0x10170 [0x41, 0x61, 0, 0, 0x42, 0x62, 0]
      (\<lambda>a. None))))))))"

text \<open>
  A library image loaded at \<open>0x10000\<close> with three functions (RVAs \<open>0x1000\<close>, \<open>0x2000\<close>,
  \<open>0x3000\<close>) and three names, \<^verbatim>\<open>"Aa"\<close>, \<^verbatim>\<open>"Bb"\<close>, \<^verbatim>\<open>"Cc"\<close> (RVAs \<open>0x170\<close>, \<open>0x174\<close>, \<open>0x178\<close>),
  as a module definition file with explicit ordinals gives: the name-ordinal table is
  \<open>2, 0, 1\<close>, so that in the image format \<^verbatim>\<open>"Aa"\<close> is the name of function 2, \<^verbatim>\<open>"Bb"\<close> of
  function 0 and \<^verbatim>\<open>"Cc"\<close> of function 1.
\<close>

definition permuted_export_image :: memory where
  "permuted_export_image =
     store_bytes 0x1003C [0x40, 0, 0, 0]
    (store_bytes 0x100C8 [0, 1, 0, 0]
    (store_bytes 0x10114 [3, 0, 0, 0,  3, 0, 0, 0,  0x40, 1, 0, 0,  0x50, 1, 0, 0,  0x60, 1, 0, 0]
    (store_bytes 0x10140 [0, 0x10, 0, 0,  0, 0x20, 0, 0,  0, 0x30, 0, 0]
    (store_bytes 0x10150 [0x70, 1, 0, 0,  0x74, 1, 0, 0,  0x78, 1, 0, 0]
    (store_bytes 0x10160 [2, 0, 0, 0, 1, 0]
    (store_bytes 0x10170 [0x41, 0x61, 0, 0, 0x42, 0x62, 0, 0, 0x43, 0x63, 0]
      (\<lambda>a. None)))))))"

text \<open>
  A host image loaded at \<open>0x10000\<close>: import directory at RVA \<open>0x200\<close> with two
  descriptors and the terminator. The first imports \<^verbatim>\<open>Sleep\<close> from \<^verbatim>\<open>KERNEL32.dll\<close>. The
  second names the C runtime in upper case; its thunk array (RVA \<open>0x320\<close>) holds an
  import by ordinal, \<^verbatim>\<open>_initterm\<close> and the function \<open>importName\<close>, and its address table
  (RVA \<open>0x3A0\<close>) holds the three resolved pointers. \<open>host_image\<close> imports \<^verbatim>\<open>_initterm_e\<close>
  there, \<open>host_image_cmdline\<close> imports \<^verbatim>\<open>_get_narrow_winmain_command_line\<close>.
\<close>

definition host_image_importing :: "string \<Rightarrow> memory" where
  "host_image_importing importName =
     store_bytes 0x1003C [0x40, 0, 0, 0]
    (store_bytes 0x100D0 [0, 2, 0, 0]
    (store_bytes 0x10200 [0x00, 3, 0, 0,  0, 0, 0, 0,  0, 0, 0, 0,  0x80, 2, 0, 0,  0x80, 3, 0, 0,
                          0x20, 3, 0, 0,  0, 0, 0, 0,  0, 0, 0, 0,  0x90, 2, 0, 0,  0xA0, 3, 0, 0,
                          0, 0, 0, 0]
    (store_bytes 0x10280 (map of_char ''KERNEL32.dll'' @ [0])
    (store_bytes 0x10290 (map of_char ''API-MS-WIN-CRT-RUNTIME-L1-1-0.dll'' @ [0])
    (store_bytes 0x10300 [0x00, 4, 0, 0, 0, 0, 0, 0,  0, 0, 0, 0, 0, 0, 0, 0]
    (store_bytes 0x10320 [5, 0, 0, 0, 0, 0, 0, 0x80,  0x10, 4, 0, 0, 0, 0, 0, 0,
                          0x20, 4, 0, 0, 0, 0, 0, 0,  0, 0, 0, 0, 0, 0, 0, 0]
    (store_bytes 0x103A0 [0x10, 0x32, 0x54, 0x76, 0xFA, 0x7F, 0, 0,
                          0x20, 0x32, 0x54, 0x76, 0xFA, 0x7F, 0, 0,
                          0x30, 0x32, 0x54, 0x76, 0xFA, 0x7F, 0, 0,  0, 0, 0, 0, 0, 0, 0, 0]
    (store_bytes 0x10400 ([0, 0] @ map of_char ''Sleep'' @ [0])
    (store_bytes 0x10410 ([0, 0] @ map of_char ''_initterm'' @ [0])
    (store_bytes 0x10420 ([0, 0] @ map of_char importName @ [0])
      (\<lambda>a. None)))))))))))"

definition host_image :: memory where
  "host_image = host_image_importing ''_initterm_e''"

definition host_image_cmdline :: memory where
  "host_image_cmdline = host_image_importing ''_get_narrow_winmain_command_line''"

text \<open>
  Objects with run-time type information, for \<^verbatim>\<open>s_baseAddr = 0x20000\<close>: the object at
  \<open>0x30000\<close> has the type-descriptor name \<^verbatim>\<open>".?AVFoo@@"\<close> (stored at \<open>0x20310\<close>), the object at
  \<open>0x30010\<close> the name \<^verbatim>\<open>"Foo"\<close> (at \<open>0x20350\<close>). Address \<open>0\<close> is not readable.
\<close>

definition rtti_image :: memory where
  "rtti_image =
     store_bytes 0x30000 [0x08, 1, 2, 0, 0, 0, 0, 0]
    (store_bytes 0x30010 [0x28, 1, 2, 0, 0, 0, 0, 0]
    (store_bytes 0x20100 [0x00, 2, 2, 0, 0, 0, 0, 0]
    (store_bytes 0x20120 [0x20, 2, 2, 0, 0, 0, 0, 0]
    (store_bytes 0x2020C [0x00, 3, 0, 0]
    (store_bytes 0x2022C [0x40, 3, 0, 0]
    (store_bytes 0x20310 (map of_char ''.?AVFoo@@'' @ [0])
    (store_bytes 0x20350 (map of_char ''Foo'' @ [0])
      (\<lambda>a. None))))))))"

text \<open>
  A start state with both latches clear and an empty trace, an environment whose branch
  trampoline can be created or not, and a sequence of calls through the two slots.
\<close>

definition initial_state :: sfse_state where
  "initial_state =
     \<lparr>proc_mem = host_image, initterm_e_Original = 0x7FFA76543210,
      get_narrow_winmain_command_line_Original = 0x7FFA76543220,
      Preinit_runOnce = False, Initialize_runOnce = False, trace = []\<rparr>"

definition example_env :: "bool \<Rightarrow> env" where
  "example_env branch_ok =
     \<lparr>env_SHGetFolderPath_succeeds = True,
      env_branchTrampoline_create = (\<lambda>n t. branch_ok),
      env_localTrampoline_create = (\<lambda>n t. True),
      env_initterm_e = (\<lambda>f a b t. 0),
      env_get_narrow_winmain_command_line = (\<lambda>f t. 0x500000),
      env_initterm_e_Hook = 0x7FFB00001000,
      env_get_narrow_winmain_command_line_Hook = 0x7FFB00002000\<rparr>"

definition example_calls :: "call list" where
  "example_calls =
     [CRT_initterm_e 0x1000 0x1010, CRT_initterm_e 0x1010 0x1020,
      CRT_get_narrow_winmain_command_line, CRT_get_narrow_winmain_command_line]"

text \<open>
  A configuration environment: the game is \<^verbatim>\<open>Starfield.exe\<close> in the directory \<^verbatim>\<open>Game\<close> of
  drive \<^verbatim>\<open>C:\<close>, and the configuration file has the one key \<^verbatim>\<open>Level = 42\<close> in its section
  \<^verbatim>\<open>Debug\<close>.
\<close>

definition example_config_env :: config_env where
  "example_config_env =
     \<lparr>env_GetModuleFileName = ''C:'' @ [backslash] @ ''Game'' @ [backslash] @ ''Starfield.exe'',
      env_profile = (\<lambda>fileName section key.
         if fileName = ''C:'' @ [backslash] @ ''Game'' @ [backslash] @ ''Data'' @ [backslash] @
              ''SFSE'' @ [backslash] @ ''sfse.ini'' \<and> section = ''Debug'' \<and> key = ''Level''
         then Some ''42'' else None),
      env_sscanf_u = (\<lambda>str. if str = ''42'' then Some 42 else None)\<rparr>"

definition initial_config_state :: config_state where
  "initial_config_state =
     \<lparr>appPath = [], s_runtimeDirectory = [], s_configPath = [], config_log = []\<rparr>"

definition example_config_path :: string where
  "example_config_path =
     ''C:'' @ [backslash] @ ''Game'' @ [backslash] @ ''Data'' @ [backslash] @
     ''SFSE'' @ [backslash] @ ''sfse.ini''"

definition example_config_state :: config_state where
  "example_config_state =
     \<lparr>appPath = ''C:'' @ [backslash] @ ''Game'' @ [backslash] @ ''Starfield.exe'',
      s_runtimeDirectory = ''C:'' @ [backslash] @ ''Game'' @ [backslash],
      s_configPath = example_config_path,
      config_log = [Log kLevel_Message ''config path = %s'']\<rparr>"

section \<open>Reading and writing memory\<close>


lemma store_bytes_other:
  "(\<forall>i. i < length bs \<longrightarrow> a \<noteq> p + of_nat i) \<Longrightarrow> store_bytes p bs m a = m a"
proof (induction bs arbitrary: p m)
  case Nil
  show ?case by simp
next
  case (Cons b bs)
  have "a \<noteq> p" using Cons.prems [rule_format, of 0] by simp
  moreover have "\<forall>i. i < length bs \<longrightarrow> a \<noteq> (p + 1) + of_nat i"
  proof (intro allI impI)
    fix i assume "i < length bs"
    then show "a \<noteq> (p + 1) + of_nat i"
      using Cons.prems [rule_format, of "Suc i"] by (simp add: algebra_simps)
  qed
  ultimately show ?case
    by (simp add: Cons.IH)
qed


lemma length_le_bytes: "length (le_bytes n v) = n"
  by (induction n arbitrary: v) simp_all


lemma safeWrite64_other:
  "(\<forall>i. i < 8 \<longrightarrow> a \<noteq> p + of_nat i) \<Longrightarrow> safeWrite64 p v m a = m a"
  unfolding safeWrite64_def by (intro store_bytes_other) (simp add: length_le_bytes)

text \<open>
  A lookup in a memory built by \<open>store_bytes\<close>, by offset; with it a read of a concrete
  image is evaluated without unfolding the image byte by byte.
\<close>

lemma store_bytes_lookup:
  "length bs \<le> 2 ^ 64 \<Longrightarrow>
   store_bytes p bs m a =
     (if unat (a - p) < length bs then Some (bs ! unat (a - p)) else m a)"
proof (induction bs arbitrary: p m)
  case Nil
  show ?case by simp
next
  case (Cons b bs)
  have len: "length bs < 2 ^ 64" "length bs \<le> 2 ^ 64"
    using Cons.prems by simp_all
  have IH: "store_bytes (p + 1) bs (m(p \<mapsto> b)) a =
     (if unat (a - (p + 1)) < length bs then Some (bs ! unat (a - (p + 1))) else (m(p \<mapsto> b)) a)"
    by (rule Cons.IH [OF len(2)])
  show ?case
  proof (cases "a = p")
    case True
    have "unat (- 1 :: addr) = 2 ^ 64 - 1"
      by (simp add: unsigned_minus_1_eq_mask mask_eq_exp_minus_1)
    then have "\<not> unat (p - (p + 1)) < length bs"
      using len(1) by simp
    then show ?thesis
      using True IH by simp
  next
    case False
    then have nz: "a - p \<noteq> 0"
      by simp
    then have pos: "0 < unat (a - p)"
      by (simp add: unat_gt_0)
    have "a - (p + 1) = (a - p) - 1"
      by simp
    moreover have "unat ((a - p) - 1) = unat (a - p) - 1"
      using nz by (rule unat_minus_one)
    ultimately have eq: "unat (a - (p + 1)) = unat (a - p) - 1"
      by (simp only:)
    show ?thesis
      using False IH pos eq by (cases "unat (a - p)") auto
  qed
qed

lemmas read_defs = read16_def read32_def read64_def read_le_def

lemmas image_eval =
  read_defs store_bytes_lookup tolower_def IMAGE_ORDINAL_FLAG64_def host_image_importing_def

section \<open>Export lookup\<close>

text \<open>Entries before \<open>i\<close> that are readable and not named \<open>nm\<close> are passed over.\<close>

lemma export_loop_skip:
  assumes nf: "read32 m (et + 20) = Ret nf"
  shows "unat i0 + k = unat i \<Longrightarrow> i \<le> nf \<Longrightarrow>
     (\<forall>j. i0 \<le> j \<and> j < i \<longrightarrow> export_entry_named m base et eo en nm j = Ret False) \<Longrightarrow>
     export_loop m base et ea eo en nm i0 = export_loop m base et ea eo en nm i"
proof (induction k arbitrary: i0)
  case 0
  then have "i0 = i"
    by (simp add: word_unat_eq_iff)
  then show ?case
    by simp
next
  case (Suc k)
  from Suc.prems have lt: "i0 < i"
    by (simp add: word_less_nat_alt)
  with Suc.prems have lt': "i0 < nf"
    by simp
  have un: "unat (i0 + 1) = Suc (unat i0)"
    using lt by (rule unat_succ_less)
  have f: "export_entry_named m base et eo en nm i0 = Ret False"
    using Suc.prems lt by simp
  have "export_loop m base et ea eo en nm i0 = export_loop m base et ea eo en nm (i0 + 1)"
    by (subst export_loop.simps) (simp add: nf lt' f)
  also have "\<dots> = export_loop m base et ea eo en nm i"
  proof (rule Suc.IH)
    show "unat (i0 + 1) + k = unat i"
      using un Suc.prems by simp
    show "i \<le> nf"
      by fact
    show "\<forall>j. i0 + 1 \<le> j \<and> j < i \<longrightarrow> export_entry_named m base et eo en nm j = Ret False"
    proof (intro allI impI)
      fix j
      assume "i0 + 1 \<le> j \<and> j < i"
      moreover have "i0 \<le> i0 + 1"
        using un by (simp add: word_le_nat_alt)
      ultimately have "i0 \<le> j \<and> j < i"
        by auto
      then show "export_entry_named m base et eo en nm j = Ret False"
        using Suc.prems by blast
    qed
  qed
  finally show ?case .
qed

text \<open>
  What the loop computes. Let the prologue of \<^verbatim>\<open>getResourceLibraryProcAddress\<close> read the
  export directory of the module without fault, and let the indices before \<open>i\<close> be
  readable and fail the test of the loop body. If index \<open>i\<close> passes it, the function
  returns \<open>base + addrRVA\<close> for \<^verbatim>\<open>exportAddresses[i]\<close>; if \<open>i\<close> is \<^verbatim>\<open>NumberOfFunctions\<close>, it
  returns \<^verbatim>\<open>nullptr\<close>.
\<close>

lemma getResourceLibraryProcAddress_first_index:
  assumes hdr: "export_arrays m (module AND NOT 3) = Ret (et, ea, eo, en)"
    and nf: "read32 m (et + 20) = Ret NumberOfFunctions"
    and le: "i \<le> NumberOfFunctions"
    and skip: "\<forall>j. j < i \<longrightarrow>
       export_entry_named m (module AND NOT 3) et eo en exportName j = Ret False"
  shows "(i < NumberOfFunctions \<and>
          export_entry_named m (module AND NOT 3) et eo en exportName i = Ret True \<and>
          read32 m (ea + 4 * ucast i) = Ret addrRVA \<longrightarrow>
            getResourceLibraryProcAddress m module exportName =
              Ret ((module AND NOT 3) + ucast addrRVA)) \<and>
         (i = NumberOfFunctions \<longrightarrow>
            getResourceLibraryProcAddress m module exportName = Ret 0)"
proof -
  let ?base = "module AND NOT 3"
  have "export_loop m ?base et ea eo en exportName 0 =
        export_loop m ?base et ea eo en exportName i"
    using skip le by (intro export_loop_skip [OF nf, where k = "unat i"]) simp_all
  then have g: "getResourceLibraryProcAddress m module exportName =
        export_loop m ?base et ea eo en exportName i"
    using hdr by (simp add: getResourceLibraryProcAddress_def Let_def)
  show ?thesis
    unfolding g by (subst export_loop.simps, simp add: nf)+
qed

lemma export_image_arrays:
  "export_arrays export_image 0x10000 = Ret (0x10100, 0x10140, 0x10160, 0x10150)"
  by (simp add: export_image_def export_arrays_def dataDirectory_def ntHeader_def image_eval
      del: store_bytes.simps)

lemma export_image_NumberOfFunctions: "read32 export_image (0x10100 + 20) = Ret 2"
  by (simp add: export_image_def image_eval del: store_bytes.simps)

lemma export_image_entry_0_Bb:
  "export_entry_named export_image 0x10000 0x10100 0x10160 0x10150 ''Bb'' 0 = Ret False"
  by (simp add: export_image_def export_entry_named_def image_eval del: store_bytes.simps)

lemma export_image_entry_1_Bb:
  "export_entry_named export_image 0x10000 0x10100 0x10160 0x10150 ''Bb'' 1 = Ret True"
  by (simp add: export_image_def export_entry_named_def image_eval del: store_bytes.simps)

lemma export_image_entry_0_Cc:
  "export_entry_named export_image 0x10000 0x10100 0x10160 0x10150 ''Cc'' 0 = Ret False"
  by (simp add: export_image_def export_entry_named_def image_eval del: store_bytes.simps)

lemma export_image_entry_1_Cc:
  "export_entry_named export_image 0x10000 0x10100 0x10160 0x10150 ''Cc'' 1 = Ret False"
  by (simp add: export_image_def export_entry_named_def image_eval del: store_bytes.simps)

lemma export_image_address_1:
  "read32 export_image (0x10140 + 4 * ucast (1 :: u32)) = Ret 0x2000"
  by (simp add: export_image_def image_eval del: store_bytes.simps)

lemma u32_less_2: "(j :: u32) < 2 \<longleftrightarrow> j = 0 \<or> j = 1"
proof -
  have "j < 2 \<longleftrightarrow> unat j < 2"
    by (simp add: word_less_nat_alt)
  also have "\<dots> \<longleftrightarrow> unat j = 0 \<or> unat j = 1"
    by auto
  also have "\<dots> \<longleftrightarrow> j = 0 \<or> j = 1"
    by (simp add: word_unat_eq_iff)
  finally show ?thesis .
qed

lemma export_image_lookup:
  "getResourceLibraryProcAddress export_image 0x10001 ''Bb'' = Ret 0x12000 \<and>
   getResourceLibraryProcAddress export_image 0x10001 ''Cc'' = Ret 0"
  using
    getResourceLibraryProcAddress_first_index
      [of export_image "0x10001" "0x10100" "0x10140" "0x10160" "0x10150" 2 1 "''Bb''" "0x2000"]
    getResourceLibraryProcAddress_first_index
      [of export_image "0x10001" "0x10100" "0x10140" "0x10160" "0x10150" 2 2 "''Cc''"]
    export_image_arrays export_image_NumberOfFunctions export_image_entry_0_Bb
    export_image_entry_1_Bb export_image_entry_0_Cc export_image_entry_1_Cc
    export_image_address_1
  by (simp add: u32_less_2)

lemmas export_eval =
  getResourceLibraryProcAddress_def export_arrays_def dataDirectory_def ntHeader_def
  export_loop.simps export_entry_named_def image_eval

text \<open>
  C1 does not hold of the code. In the export directory of \<open>permuted_export_image\<close> the
  first name is \<^verbatim>\<open>"Aa"\<close>, the name-ordinal table gives that name the function index 2, and
  entry 2 of the address table is the RVA \<open>0x3000\<close>: the entry that corresponds to the
  name \<^verbatim>\<open>"Aa"\<close> has the address \<open>base + 0x3000\<close>. \<^verbatim>\<open>getResourceLibraryProcAddress\<close> returns
  \<open>base + 0x2000\<close>, the address of another export: it indexes the name-ordinal table by
  function and pairs the name \<^verbatim>\<open>exportNames[exportNameOrdinals[i]]\<close> with the address
  \<^verbatim>\<open>exportAddresses[i]\<close>, where the image format indexes that table by name.
\<close>

theorem getResourceLibraryProcAddress_permuted_ordinals:
  "export_arrays permuted_export_image 0x10000 = Ret (0x10100, 0x10140, 0x10160, 0x10150) \<and>
   read32 permuted_export_image 0x10150 = Ret 0x170 \<and>
   cstr_at permuted_export_image 0x10170 ''Aa'' \<and>
   read16 permuted_export_image 0x10160 = Ret 2 \<and>
   read32 permuted_export_image (0x10140 + 4 * 2) = Ret 0x3000 \<and>
   getResourceLibraryProcAddress permuted_export_image 0x10000 ''Aa'' = Ret 0x12000"
  by (simp add: permuted_export_image_def export_eval del: store_bytes.simps)

section \<open>Tagged module handles\<close>

text \<open>
  C10. \<^verbatim>\<open>getResourceLibraryProcAddress\<close> and \<^verbatim>\<open>is64BitDLL\<close> ignore the low two bits of the
  module pointer: each returns for \<open>p\<close> what it returns for \<open>p\<close> with these bits cleared.
\<close>

theorem module_low_bits_ignored:
  "getResourceLibraryProcAddress m p exportName =
     getResourceLibraryProcAddress m (p AND NOT 3) exportName \<and>
   is64BitDLL m p = is64BitDLL m (p AND NOT 3)"
  by (simp add: getResourceLibraryProcAddress_def is64BitDLL_def)

lemma export_image_is64BitDLL: "is64BitDLL export_image 0x10000 = Ret True"
  by (simp add: export_image_def is64BitDLL_def ntHeader_def image_eval
      IMAGE_FILE_MACHINE_AMD64_def del: store_bytes.simps)

theorem module_low_bits_ignored_witness:
  "getResourceLibraryProcAddress export_image 0x10003 ''Bb'' =
     getResourceLibraryProcAddress export_image 0x10000 ''Bb'' \<and>
   is64BitDLL export_image 0x10003 = Ret True"
  using module_low_bits_ignored [of export_image "0x10003" "''Bb''"] export_image_is64BitDLL
  by simp

section \<open>Import slot lookup\<close>
















section \<open>Class names from run-time type information\<close>

lemma name_scan_skip:
  "(\<forall>j. j < k \<longrightarrow> (\<exists>c. m (name + of_nat (i + j)) = Some c \<and> c \<noteq> 0)) \<Longrightarrow> i + k \<le> 100 \<Longrightarrow>
   name_scan m name result i = name_scan m name result (i + k)"
proof (induction k arbitrary: i)
  case 0
  show ?case by simp
next
  case (Suc k)
  obtain c where c: "m (name + of_nat i) = Some c" "c \<noteq> 0"
    using Suc.prems(1) [rule_format, of 0] by auto
  have "name_scan m name result i = name_scan m name result (i + 1)"
    using Suc.prems(2) c by (subst name_scan.simps) simp
  also have "\<dots> = name_scan m name result ((i + 1) + k)"
  proof (rule Suc.IH)
    show "\<forall>j. j < k \<longrightarrow> (\<exists>c. m (name + of_nat ((i + 1) + j)) = Some c \<and> c \<noteq> 0)"
    proof (intro allI impI)
      fix j assume "j < k"
      then show "\<exists>c. m (name + of_nat ((i + 1) + j)) = Some c \<and> c \<noteq> 0"
        using Suc.prems(1) [rule_format, of "Suc j"] by simp
    qed
    show "i + 1 + k \<le> 100" using Suc.prems(2) by simp
  qed
  finally show ?case by simp
qed

lemma cstr_at_nth:
  "cstr_at m p s \<Longrightarrow> j < length s \<Longrightarrow> m (p + of_nat j) = Some (of_char (s ! j)) \<and> (of_char (s ! j) :: byte) \<noteq> 0"
proof (induction s arbitrary: p j)
  case Nil
  then show ?case by simp
next
  case (Cons c cs)
  show ?case
  proof (cases j)
    case 0
    then show ?thesis using Cons.prems by simp
  next
    case (Suc j')
    then have "m ((p + 1) + of_nat j') = Some (of_char (cs ! j')) \<and> (of_char (cs ! j') :: byte) \<noteq> 0"
      using Cons.prems by (intro Cons.IH) simp_all
    then show ?thesis using Suc by (simp add: algebra_simps)
  qed
qed

lemma cstr_at_end: "cstr_at m p s \<Longrightarrow> m (p + of_nat (length s)) = Some 0"
proof (induction s arbitrary: p)
  case Nil
  then show ?case by simp
next
  case (Cons c cs)
  then have "m ((p + 1) + of_nat (length cs)) = Some 0"
    by (intro Cons.IH) simp
  then show ?case by (simp add: algebra_simps)
qed

lemma cstr_at_drop: "cstr_at m p s \<Longrightarrow> k \<le> length s \<Longrightarrow> cstr_at m (p + of_nat k) (drop k s)"
proof (induction k arbitrary: p s)
  case 0
  then show ?case by simp
next
  case (Suc k)
  then obtain c cs where s: "s = c # cs" by (cases s) auto
  then have "cstr_at m ((p + 1) + of_nat k) (drop k cs)"
    using Suc.prems by (intro Suc.IH) simp_all
  then show ?case using s by (simp add: algebra_simps)
qed

lemma name_scan_cstr:
  assumes "cstr_at m name s" "length s < 100"
  shows "name_scan m name result 0 = Ret (CharPtr (name + 4))"
proof -
  have "\<forall>j. j < length s \<longrightarrow> (\<exists>c. m (name + of_nat (0 + j)) = Some c \<and> c \<noteq> 0)"
    using cstr_at_nth [OF assms(1)] by auto
  then have "name_scan m name result 0 = name_scan m name result (0 + length s)"
    using assms(2) by (intro name_scan_skip) simp_all
  also have "\<dots> = Ret (CharPtr (name + 4))"
    using cstr_at_end [OF assms(1)] assms(2) by (subst name_scan.simps) simp
  finally show ?thesis .
qed

text \<open>
  C7. For an object whose pointer chase succeeds and whose type-descriptor name is the
  NUL-terminated string \<^verbatim>\<open>".?AVFoo@@"\<close>, \<^verbatim>\<open>getObjectClassName\<close> returns the pointer
  \<^verbatim>\<open>type->name + 4\<close>, and the string stored there is \<^verbatim>\<open>"Foo@@"\<close>.
\<close>

theorem getObjectClassName_Foo:
  assumes "rtti_type_name s_baseAddr m objBase = Ret name"
    and "cstr_at m name ''.?AVFoo@@''"
  shows "getObjectClassName s_baseAddr m objBase = CharPtr (name + 4) \<and>
         cstr_at m (name + 4) ''Foo@@''"
proof
  have "name_scan m name (Literal ''<no rtti>'') 0 = Ret (CharPtr (name + 4))"
    using assms(2) by (rule name_scan_cstr) simp
  moreover have "m name = Some (of_char CHR ''.'')" "m (name + 1) = Some (of_char CHR ''?'')"
    using assms(2) by simp_all
  ultimately show "getObjectClassName s_baseAddr m objBase = CharPtr (name + 4)"
    using assms(1) by (simp add: getObjectClassName_def class_name_walk_def)
  show "cstr_at m (name + 4) ''Foo@@''"
    using cstr_at_drop [OF assms(2), of 4] by simp
qed

lemma rtti_image_object_1: "rtti_type_name 0x20000 rtti_image 0x30000 = Ret 0x20310"
  by (simp add: rtti_image_def rtti_type_name_def image_eval del: store_bytes.simps)

lemma rtti_image_name_1: "cstr_at rtti_image 0x20310 ''.?AVFoo@@''"
  by (simp add: rtti_image_def image_eval del: store_bytes.simps)

theorem getObjectClassName_Foo_witness:
  "getObjectClassName 0x20000 rtti_image 0x30000 = CharPtr 0x20314 \<and>
   cstr_at rtti_image 0x20314 ''Foo@@''"
  using getObjectClassName_Foo [of "0x20000" rtti_image "0x30000" "0x20310"]
    rtti_image_object_1 rtti_image_name_1
  by simp

text \<open>
  C2 (amended). If the body of the \<^verbatim>\<open>__try\<close> block faults anywhere, or the pointer chase
  succeeds and the type-descriptor name does not start with the two characters \<^verbatim>\<open>".?"\<close>,
  \<^verbatim>\<open>getObjectClassName\<close> returns the string literal \<^verbatim>\<open>"<no rtti>"\<close> of the source (with a
  space). It is a total function: no fault of the walk leaves it.
\<close>

theorem getObjectClassName_no_rtti:
  assumes "class_name_walk s_baseAddr m objBase (Literal ''<no rtti>'') = AccessViolation \<or>
     (\<exists>name. rtti_type_name s_baseAddr m objBase = Ret name \<and>
        \<not> (m name = Some (of_char CHR ''.'') \<and> m (name + 1) = Some (of_char CHR ''?'')))"
  shows "getObjectClassName s_baseAddr m objBase = Literal ''<no rtti>''"
  using assms
  by (auto simp add: getObjectClassName_def class_name_walk_def Let_def split: outcome.splits option.splits if_splits)

lemma rtti_image_null_object:
  "class_name_walk 0x20000 rtti_image 0 (Literal ''<no rtti>'') = AccessViolation"
  by (simp add: rtti_image_def class_name_walk_def rtti_type_name_def image_eval
      del: store_bytes.simps)

lemma rtti_image_object_2: "rtti_type_name 0x20000 rtti_image 0x30010 = Ret 0x20350"
  by (simp add: rtti_image_def rtti_type_name_def image_eval del: store_bytes.simps)

lemma rtti_image_name_2: "rtti_image 0x20350 = Some (of_char CHR ''F'')"
  by (simp add: rtti_image_def image_eval del: store_bytes.simps)

text \<open>
  C2 as stated fails: for the null object pointer the walk faults, and the string
  returned is not \<^verbatim>\<open>"<no-rtti>"\<close> (with a hyphen).
\<close>

theorem getObjectClassName_sentinel_counterexample:
  "class_name_walk 0x20000 rtti_image 0 (Literal ''<no rtti>'') = AccessViolation \<and>
   getObjectClassName 0x20000 rtti_image 0 \<noteq> Literal ''<no-rtti>''"
  using rtti_image_null_object by (simp add: getObjectClassName_def)

theorem getObjectClassName_no_rtti_witness:
  "getObjectClassName 0x20000 rtti_image 0 = Literal ''<no rtti>'' \<and>
   getObjectClassName 0x20000 rtti_image 0x30010 = Literal ''<no rtti>''"
  using getObjectClassName_no_rtti [of "0x20000" rtti_image 0]
    getObjectClassName_no_rtti [of "0x20000" rtti_image "0x30010"]
    rtti_image_null_object rtti_image_object_2 rtti_image_name_2
  by simp

section \<open>Calls through the hooked slots\<close>

lemma SFSE_Preinit_latched: "Preinit_runOnce s \<Longrightarrow> SFSE_Preinit env s = s"
  by (simp add: SFSE_Preinit_def)

lemma SFSE_Preinit_first:
  assumes "\<not> Preinit_runOnce s"
  shows "\<exists>b l. SFSE_Preinit env s =
           s\<lparr>Preinit_runOnce := True, trace := trace s @ preinit_events b l\<rparr>"
proof -
  let ?t5 = "trace s @ [GetSystemTime, Log kLevel_Message msg_runtime,
      Log kLevel_Message ''imagebase = %016I64X'',
      Log kLevel_Message ''reloc mgr imagebase = %016I64X'']"
  let ?b = "env_branchTrampoline_create env (1024 * 64) ?t5"
  let ?l = "env_localTrampoline_create env (1024 * 64)
      (?t5 @ [BranchTrampoline_create (1024 * 64) ?b])"
  have "SFSE_Preinit env s =
      s\<lparr>Preinit_runOnce := True, trace := trace s @ preinit_events ?b ?l\<rparr>"
    using assms by (simp add: SFSE_Preinit_def Let_def emit_def preinit_events_def)
  then show ?thesis
    by blast
qed

lemma SFSE_Initialize_latched: "Initialize_runOnce s \<Longrightarrow> SFSE_Initialize s = s"
  by (simp add: SFSE_Initialize_def)

lemma SFSE_Initialize_first:
  "\<not> Initialize_runOnce s \<Longrightarrow>
   SFSE_Initialize s = s\<lparr>Initialize_runOnce := True, trace := trace s @ initialize_events\<rparr>"
  by (simp add: SFSE_Initialize_def Let_def emit_def initialize_events_def)

lemma preinit_events_kinds:
  "filter preinit_event (preinit_events b l) = preinit_events b l"
  "filter initialize_event (preinit_events b l) = []"
  "filter original_call (preinit_events b l) = []"
  by (simp_all add: preinit_events_def msg_runtime_def msg_no_branch_trampoline_def
      msg_no_codegen_buffer_def)

lemma initialize_events_kinds:
  "filter preinit_event initialize_events = []"
  "filter initialize_event initialize_events = initialize_events"
  "filter original_call initialize_events = []"
  by (simp_all add: initialize_events_def)

lemma results_of_originals_append:
  "results_of_originals env before (xs @ ys) \<longleftrightarrow>
   results_of_originals env before xs \<and> results_of_originals env (before @ xs) ys"
  by (induction xs arbitrary: before) simp_all

lemma results_of_originals_no_call:
  "filter original_call xs = [] \<Longrightarrow> results_of_originals env before xs"
proof (induction xs arbitrary: before)
  case Nil
  show ?case by simp
next
  case (Cons e es)
  then show ?case
    by (cases e) (simp_all split: if_splits)
qed

lemma SFSE_Preinit_frame:
  "Preinit_runOnce (SFSE_Preinit env s)"
  "Initialize_runOnce (SFSE_Preinit env s) = Initialize_runOnce s"
  "initterm_e_Original (SFSE_Preinit env s) = initterm_e_Original s"
  "get_narrow_winmain_command_line_Original (SFSE_Preinit env s) =
     get_narrow_winmain_command_line_Original s"
  "proc_mem (SFSE_Preinit env s) = proc_mem s"
proof -
  have "Preinit_runOnce (SFSE_Preinit env s) \<and>
    Initialize_runOnce (SFSE_Preinit env s) = Initialize_runOnce s \<and>
    initterm_e_Original (SFSE_Preinit env s) = initterm_e_Original s \<and>
    get_narrow_winmain_command_line_Original (SFSE_Preinit env s) =
      get_narrow_winmain_command_line_Original s \<and>
    proc_mem (SFSE_Preinit env s) = proc_mem s"
  proof (cases "Preinit_runOnce s")
    case True
    then show ?thesis
      by (simp add: SFSE_Preinit_latched)
  next
    case False
    from SFSE_Preinit_first [OF False, of env] obtain b l where
      "SFSE_Preinit env s = s\<lparr>Preinit_runOnce := True, trace := trace s @ preinit_events b l\<rparr>"
      by blast
    then show ?thesis
      by simp
  qed
  then show
    "Preinit_runOnce (SFSE_Preinit env s)"
    "Initialize_runOnce (SFSE_Preinit env s) = Initialize_runOnce s"
    "initterm_e_Original (SFSE_Preinit env s) = initterm_e_Original s"
    "get_narrow_winmain_command_line_Original (SFSE_Preinit env s) =
       get_narrow_winmain_command_line_Original s"
    "proc_mem (SFSE_Preinit env s) = proc_mem s"
    by simp_all
qed

lemma SFSE_Initialize_frame:
  "Initialize_runOnce (SFSE_Initialize s)"
  "Preinit_runOnce (SFSE_Initialize s) = Preinit_runOnce s"
  "initterm_e_Original (SFSE_Initialize s) = initterm_e_Original s"
  "get_narrow_winmain_command_line_Original (SFSE_Initialize s) =
     get_narrow_winmain_command_line_Original s"
  "proc_mem (SFSE_Initialize s) = proc_mem s"
  by (cases "Initialize_runOnce s";
      simp add: SFSE_Initialize_latched SFSE_Initialize_first)+

text \<open>One call through a hooked slot.\<close>

lemma host_call_step:
  assumes "host_call env c s = (r, s1)"
  shows "\<exists>es. trace s1 = trace s @ es @ [Call_Original (saved_original s c) c r] \<and>
           r = original_result env (saved_original s c) c (trace s @ es) \<and>
           (if is_initterm_e c
            then (if Preinit_runOnce s then es = [] else (\<exists>b l. es = preinit_events b l))
            else es = (if Initialize_runOnce s then [] else initialize_events))"
    and "Preinit_runOnce s1 = (Preinit_runOnce s \<or> is_initterm_e c)"
    and "Initialize_runOnce s1 = (Initialize_runOnce s \<or> \<not> is_initterm_e c)"
    and "initterm_e_Original s1 = initterm_e_Original s"
    and "get_narrow_winmain_command_line_Original s1 = get_narrow_winmain_command_line_Original s"
    and "proc_mem s1 = proc_mem s"
proof -
  show "\<exists>es. trace s1 = trace s @ es @ [Call_Original (saved_original s c) c r] \<and>
           r = original_result env (saved_original s c) c (trace s @ es) \<and>
           (if is_initterm_e c
            then (if Preinit_runOnce s then es = [] else (\<exists>b l. es = preinit_events b l))
            else es = (if Initialize_runOnce s then [] else initialize_events))"
  proof (cases c)
    case (CRT_initterm_e a b)
    show ?thesis
    proof (cases "Preinit_runOnce s")
      case True
      then show ?thesis
        using assms CRT_initterm_e
        by (auto simp add: initterm_e_Hook_def Let_def emit_def SFSE_Preinit_latched)
    next
      case False
      from SFSE_Preinit_first [OF False, of env] obtain b' l' where
        "SFSE_Preinit env s =
           s\<lparr>Preinit_runOnce := True, trace := trace s @ preinit_events b' l'\<rparr>"
        by blast
      then have "trace s1 = trace s @ preinit_events b' l' @
          [Call_Original (saved_original s c) c r] \<and>
          r = original_result env (saved_original s c) c (trace s @ preinit_events b' l')"
        using assms CRT_initterm_e
        by (auto simp add: initterm_e_Hook_def Let_def emit_def)
      then show ?thesis
        using CRT_initterm_e False by auto
    qed
  next
    case CRT_get_narrow_winmain_command_line
    then show ?thesis
      using assms
      by (cases "Initialize_runOnce s")
        (auto simp add: get_narrow_winmain_command_line_Hook_def Let_def emit_def
          SFSE_Initialize_latched SFSE_Initialize_first)
  qed
next
  have s1: "s1 = snd (host_call env c s)"
    using assms by simp
  show "Preinit_runOnce s1 = (Preinit_runOnce s \<or> is_initterm_e c)"
    unfolding s1
    by (cases c)
      (simp_all add: initterm_e_Hook_def get_narrow_winmain_command_line_Hook_def Let_def
        emit_def SFSE_Preinit_frame SFSE_Initialize_frame)
  show "Initialize_runOnce s1 = (Initialize_runOnce s \<or> \<not> is_initterm_e c)"
    unfolding s1
    by (cases c)
      (simp_all add: initterm_e_Hook_def get_narrow_winmain_command_line_Hook_def Let_def
        emit_def SFSE_Preinit_frame SFSE_Initialize_frame)
  show "initterm_e_Original s1 = initterm_e_Original s"
    unfolding s1
    by (cases c)
      (simp_all add: initterm_e_Hook_def get_narrow_winmain_command_line_Hook_def Let_def
        emit_def SFSE_Preinit_frame SFSE_Initialize_frame)
  show "get_narrow_winmain_command_line_Original s1 = get_narrow_winmain_command_line_Original s"
    unfolding s1
    by (cases c)
      (simp_all add: initterm_e_Hook_def get_narrow_winmain_command_line_Hook_def Let_def
        emit_def SFSE_Preinit_frame SFSE_Initialize_frame)
  show "proc_mem s1 = proc_mem s"
    unfolding s1
    by (cases c)
      (simp_all add: initterm_e_Hook_def get_narrow_winmain_command_line_Hook_def Let_def
        emit_def SFSE_Preinit_frame SFSE_Initialize_frame)
qed

text \<open>Any sequence of calls, from any state.\<close>

lemma host_calls_run:
  assumes "host_calls env cs s = (rs, s')"
  shows "\<exists>new. trace s' = trace s @ new \<and>
     (if Preinit_runOnce s \<or> filter is_initterm_e cs = [] then filter preinit_event new = []
      else (\<exists>b l. filter preinit_event new = preinit_events b l)) \<and>
     filter initialize_event new =
       (if Initialize_runOnce s \<or> CRT_get_narrow_winmain_command_line \<notin> set cs then []
        else initialize_events) \<and>
     filter original_call new = map2 (\<lambda>c r. Call_Original (saved_original s c) c r) cs rs \<and>
     length rs = length cs \<and>
     results_of_originals env (trace s) new \<and>
     Initialize_runOnce s' =
       (Initialize_runOnce s \<or> CRT_get_narrow_winmain_command_line \<in> set cs) \<and>
     get_narrow_winmain_command_line_Original s' = get_narrow_winmain_command_line_Original s"
  using assms
proof (induction cs arbitrary: s rs s')
  case Nil
  then show ?case by simp
next
  case (Cons c cs)
  obtain r s1 where hc: "host_call env c s = (r, s1)"
    by (cases "host_call env c s")
  obtain rs1 s2 where hcs: "host_calls env cs s1 = (rs1, s2)"
    by (cases "host_calls env cs s1")
  have res: "rs = r # rs1" "s' = s2"
    using Cons.prems hc hcs by simp_all
  note step = host_call_step [OF hc]
  from step(1) obtain es where
    t1: "trace s1 = trace s @ es @ [Call_Original (saved_original s c) c r]"
    and r: "r = original_result env (saved_original s c) c (trace s @ es)"
    and es: "if is_initterm_e c
            then (if Preinit_runOnce s then es = [] else (\<exists>b l. es = preinit_events b l))
            else es = (if Initialize_runOnce s then [] else initialize_events)"
    by blast
  from Cons.IH [OF hcs] obtain new1 where
    t2: "trace s2 = trace s1 @ new1"
    and p2: "if Preinit_runOnce s1 \<or> filter is_initterm_e cs = []
             then filter preinit_event new1 = []
             else (\<exists>b l. filter preinit_event new1 = preinit_events b l)"
    and i2: "filter initialize_event new1 =
       (if Initialize_runOnce s1 \<or> CRT_get_narrow_winmain_command_line \<notin> set cs then []
        else initialize_events)"
    and c2: "filter original_call new1 =
       map2 (\<lambda>c r. Call_Original (saved_original s1 c) c r) cs rs1"
    and l2: "length rs1 = length cs"
    and f2: "results_of_originals env (trace s1) new1"
    and r2: "Initialize_runOnce s2 =
       (Initialize_runOnce s1 \<or> CRT_get_narrow_winmain_command_line \<in> set cs)"
    and o2: "get_narrow_winmain_command_line_Original s2 =
       get_narrow_winmain_command_line_Original s1"
    by blast
  have so: "saved_original s1 = saved_original s"
  proof
    fix c'
    show "saved_original s1 c' = saved_original s c'"
      using step(4,5) by (cases c') simp_all
  qed
  have es_kinds: "filter original_call es = []"
    "filter preinit_event es = (if is_initterm_e c then es else [])"
    "filter initialize_event es = (if is_initterm_e c then [] else es)"
    using es by (auto simp add: preinit_events_kinds initialize_events_kinds split: if_splits)
  let ?new = "es @ [Call_Original (saved_original s c) c r] @ new1"
  have "trace s' = trace s @ ?new"
    using t1 t2 res by simp
  moreover have "if Preinit_runOnce s \<or> filter is_initterm_e (c # cs) = []
      then filter preinit_event ?new = []
      else (\<exists>b l. filter preinit_event ?new = preinit_events b l)"
    using es p2 step(2) es_kinds by (cases c) (auto split: if_splits)
  moreover have "filter initialize_event ?new =
       (if Initialize_runOnce s \<or> CRT_get_narrow_winmain_command_line \<notin> set (c # cs) then []
        else initialize_events)"
    using es i2 step(3) es_kinds by (cases c) (auto split: if_splits)
  moreover have "filter original_call ?new =
      map2 (\<lambda>c r. Call_Original (saved_original s c) c r) (c # cs) rs"
    using c2 es_kinds so res by simp
  moreover have "length rs = length (c # cs)"
    using l2 res by simp
  moreover have "results_of_originals env (trace s) ?new"
    using f2 t1 r es_kinds(1)
    by (simp add: results_of_originals_append results_of_originals_no_call)
  moreover have "Initialize_runOnce s' =
       (Initialize_runOnce s \<or> CRT_get_narrow_winmain_command_line \<in> set (c # cs))"
    using r2 step(3) res by (cases c) auto
  moreover have "get_narrow_winmain_command_line_Original s' =
      get_narrow_winmain_command_line_Original s"
    using o2 step(5) res by simp
  ultimately show ?case
    by blast
qed

lemma count_list_filter: "P x \<Longrightarrow> count_list (filter P xs) x = count_list xs x"
  by (induction xs) auto

lemma count_list_Nil_filter: "P x \<Longrightarrow> filter P xs = [] \<Longrightarrow> count_list xs x = 0"
  using count_list_filter [of P x xs] by simp

lemma filter_filter_implies:
  "(\<And>x. Q x \<Longrightarrow> P x) \<Longrightarrow> filter Q (filter P xs) = filter Q xs"
  by (induction xs) auto

lemma branch_create_preinit: "branch_create_event e \<Longrightarrow> preinit_event e"
  by (cases e) simp_all

lemma local_create_preinit: "local_create_event e \<Longrightarrow> preinit_event e"
  by (cases e) simp_all

lemma filter_local_create:
  "filter local_create_event (filter preinit_event xs) = filter local_create_event xs"
  by (rule filter_filter_implies) (rule local_create_preinit)

lemma filter_branch_create:
  "filter branch_create_event (filter preinit_event xs) = filter branch_create_event xs"
  by (rule filter_filter_implies) (rule branch_create_preinit)


text \<open>
  C5. From a state where the latch of \<^verbatim>\<open>SFSE_Preinit\<close> is clear, let the host make any
  sequence of calls, and let a failed creation of the branch trampoline or of the codegen
  buffer be among the events added. Then the matching error was logged (and after a
  failed branch trampoline the codegen buffer was not attempted), \<^verbatim>\<open>g_pluginManager.init\<close>
  and \<^verbatim>\<open>installPlugins(kPhase_Preload)\<close> were never called, and nothing was retried: the
  body was entered once and the branch trampoline was attempted once, however many
  calls followed.
\<close>

theorem preinit_trampoline_failure:
  assumes "\<not> Preinit_runOnce s"
    and "host_calls env cs s = (rs, s')"
    and "trace s' = trace s @ new"
    and "BranchTrampoline_create n False \<in> set new \<or> LocalTrampoline_create n False \<in> set new"
  shows "(BranchTrampoline_create n False \<in> set new \<longrightarrow>
            Log kLevel_Error msg_no_branch_trampoline \<in> set new \<and>
            filter local_create_event new = []) \<and>
         (LocalTrampoline_create n False \<in> set new \<longrightarrow>
            Log kLevel_Error msg_no_codegen_buffer \<in> set new) \<and>
         PluginManager_init \<notin> set new \<and>
         PluginManager_installPlugins kPhase_Preload \<notin> set new \<and>
         Log kLevel_Message ''preinit complete'' \<notin> set new \<and>
         count_list new GetSystemTime = 1 \<and>
         length (filter branch_create_event new) = 1 \<and>
         length (filter local_create_event new) \<le> 1"
proof -
  from host_calls_run [OF assms(2)] assms(1,3) have
    p: "if filter is_initterm_e cs = [] then filter preinit_event new = []
        else (\<exists>b l. filter preinit_event new = preinit_events b l)"
    by auto
  have mem: "\<And>e. preinit_event e \<Longrightarrow> e \<in> set new \<longleftrightarrow> e \<in> set (filter preinit_event new)"
    by simp
  have "BranchTrampoline_create n False \<in> set (filter preinit_event new) \<or>
      LocalTrampoline_create n False \<in> set (filter preinit_event new)"
    using assms(4) by simp
  then have "filter preinit_event new \<noteq> []"
    by (fastforce simp add: filter_empty_conv)
  with p obtain b l where bl: "filter preinit_event new = preinit_events b l"
    by (cases "filter is_initterm_e cs = []") auto
  then have fail: "\<not> b \<or> \<not> l"
    using \<open>BranchTrampoline_create n False \<in> set (filter preinit_event new) \<or>
      LocalTrampoline_create n False \<in> set (filter preinit_event new)\<close>
    by (auto simp add: preinit_events_def split: if_splits)
  have m1: "BranchTrampoline_create n False \<in> set new \<longrightarrow>
            Log kLevel_Error msg_no_branch_trampoline \<in> set new \<and>
            filter local_create_event new = []"
  proof
    assume "BranchTrampoline_create n False \<in> set new"
    then have "BranchTrampoline_create n False \<in> set (preinit_events b l)"
      using mem [of "BranchTrampoline_create n False"] bl by simp
    then have nb: "\<not> b"
      by (auto simp add: preinit_events_def split: if_splits)
    then have "Log kLevel_Error msg_no_branch_trampoline \<in> set (filter preinit_event new)"
      unfolding bl by (simp add: preinit_events_def)
    moreover have "filter local_create_event (filter preinit_event new) = []"
      unfolding bl using nb by (simp add: preinit_events_def)
    then have "filter local_create_event new = []"
      by (simp only: filter_local_create)
    ultimately show "Log kLevel_Error msg_no_branch_trampoline \<in> set new \<and>
            filter local_create_event new = []"
      by simp
  qed
  have m2: "LocalTrampoline_create n False \<in> set new \<longrightarrow>
            Log kLevel_Error msg_no_codegen_buffer \<in> set new"
  proof
    assume "LocalTrampoline_create n False \<in> set new"
    then have "LocalTrampoline_create n False \<in> set (preinit_events b l)"
      using mem [of "LocalTrampoline_create n False"] bl by simp
    then have "b \<and> \<not> l"
      by (auto simp add: preinit_events_def split: if_splits)
    then have "Log kLevel_Error msg_no_codegen_buffer \<in> set (filter preinit_event new)"
      unfolding bl by (simp add: preinit_events_def)
    then show "Log kLevel_Error msg_no_codegen_buffer \<in> set new"
      by simp
  qed
  have "PluginManager_init \<notin> set (preinit_events b l)"
    "PluginManager_installPlugins kPhase_Preload \<notin> set (preinit_events b l)"
    "Log kLevel_Message ''preinit complete'' \<notin> set (preinit_events b l)"
    using fail
    by (auto simp add: preinit_events_def msg_runtime_def msg_no_branch_trampoline_def
        msg_no_codegen_buffer_def)
  then have m3: "PluginManager_init \<notin> set new"
    "PluginManager_installPlugins kPhase_Preload \<notin> set new"
    "Log kLevel_Message ''preinit complete'' \<notin> set new"
    using mem [of PluginManager_init] mem [of "PluginManager_installPlugins kPhase_Preload"]
      mem [of "Log kLevel_Message ''preinit complete''"] bl
    by simp_all
  have "count_list (filter preinit_event new) GetSystemTime = 1"
    unfolding bl by (simp add: preinit_events_def)
  then have m4: "count_list new GetSystemTime = 1"
    by (simp add: count_list_filter)
  have "length (filter branch_create_event (filter preinit_event new)) = 1"
    unfolding bl by (simp add: preinit_events_def)
  then have m5: "length (filter branch_create_event new) = 1"
    by (simp only: filter_branch_create)
  have "length (filter local_create_event (filter preinit_event new)) \<le> 1"
    unfolding bl by (simp add: preinit_events_def)
  then have m6: "length (filter local_create_event new) \<le> 1"
    by (simp only: filter_local_create)
  show ?thesis
    using m1 m2 m3 m4 m5 m6 by blast
qed

text \<open>
  C9. Let the latch of \<^verbatim>\<open>SFSE_Initialize\<close> be clear, and let the host make any calls
  through the \<^verbatim>\<open>_initterm_e\<close> slot only (none, or some; the trampolines created or not).
  The next call through the command-line slot runs the full load sequence:
  \<^verbatim>\<open>installPlugins(kPhase_Load)\<close>, \<^verbatim>\<open>loadComplete\<close>, the version and script hooks, the
  instruction-cache flush, the message and the log flush, and then the original.
\<close>

theorem initialize_independent_of_preinit:
  assumes "\<not> Initialize_runOnce s"
    and "CRT_get_narrow_winmain_command_line \<notin> set cs"
    and "host_calls env cs s = (rs, s1)"
    and "get_narrow_winmain_command_line_Hook env s1 = (r, s2)"
  shows "trace s2 = trace s1 @
     [PluginManager_installPlugins kPhase_Load, PluginManager_loadComplete,
      Hooks_Version_Apply, Hooks_Script_Apply, FlushInstructionCache,
      Log kLevel_Message ''init complete'', DebugLog_flush,
      Call_Original (get_narrow_winmain_command_line_Original s)
        CRT_get_narrow_winmain_command_line (Pointer r)]"
proof -
  from host_calls_run [OF assms(3)] assms(1,2) have
    "\<not> Initialize_runOnce s1"
    "get_narrow_winmain_command_line_Original s1 = get_narrow_winmain_command_line_Original s"
    by auto
  then show ?thesis
    using assms(4)
    by (auto simp add: get_narrow_winmain_command_line_Hook_def Let_def emit_def
        SFSE_Initialize_first initialize_events_def)
qed

lemmas hook_eval =
  initterm_e_Hook_def get_narrow_winmain_command_line_Hook_def SFSE_Preinit_def
  SFSE_Initialize_def emit_def Let_def


lemma initial_state_latches:
  "\<not> Preinit_runOnce initial_state" "\<not> Initialize_runOnce initial_state"
  by (simp_all add: initial_state_def)



lemma example_failed_run:
  "trace (snd (host_calls (example_env False) example_calls initial_state)) =
     preinit_events False True @
     [Call_Original 0x7FFA76543210 (CRT_initterm_e 0x1000 0x1010) (Int32 0),
      Call_Original 0x7FFA76543210 (CRT_initterm_e 0x1010 0x1020) (Int32 0)] @
     initialize_events @
     [Call_Original 0x7FFA76543220 CRT_get_narrow_winmain_command_line (Pointer 0x500000),
      Call_Original 0x7FFA76543220 CRT_get_narrow_winmain_command_line (Pointer 0x500000)]"
  by (simp add: example_env_def example_calls_def initial_state_def hook_eval
      preinit_events_def initialize_events_def)

lemma example_failed_run_create:
  "BranchTrampoline_create 65536 False \<in>
     set (trace (snd (host_calls (example_env False) example_calls initial_state)))"
  by (simp add: example_failed_run preinit_events_def)

lemma initial_state_trace: "trace initial_state = []"
  by (simp add: initial_state_def)

theorem preinit_trampoline_failure_witness:
  "BranchTrampoline_create 65536 False \<in>
     set (trace (snd (host_calls (example_env False) example_calls initial_state))) \<and>
   Log kLevel_Error msg_no_branch_trampoline \<in>
     set (trace (snd (host_calls (example_env False) example_calls initial_state))) \<and>
   PluginManager_init \<notin>
     set (trace (snd (host_calls (example_env False) example_calls initial_state))) \<and>
   PluginManager_installPlugins kPhase_Preload \<notin>
     set (trace (snd (host_calls (example_env False) example_calls initial_state))) \<and>
   count_list (trace (snd (host_calls (example_env False) example_calls initial_state)))
     GetSystemTime = 1 \<and>
   length (filter branch_create_event
     (trace (snd (host_calls (example_env False) example_calls initial_state)))) = 1"
  using preinit_trampoline_failure
      [where s = initial_state and env = "example_env False" and cs = example_calls
        and new = "trace (snd (host_calls (example_env False) example_calls initial_state))"
        and n = 65536,
       OF initial_state_latches(1) prod.collapse [symmetric]]
    example_failed_run_create initial_state_trace
  by simp

theorem initialize_independent_of_preinit_witness:
  "trace (snd (get_narrow_winmain_command_line_Hook (example_env False)
       (snd (host_calls (example_env False) [CRT_initterm_e 0x1000 0x1010] initial_state)))) =
   trace (snd (host_calls (example_env False) [CRT_initterm_e 0x1000 0x1010] initial_state)) @
     [PluginManager_installPlugins kPhase_Load, PluginManager_loadComplete,
      Hooks_Version_Apply, Hooks_Script_Apply, FlushInstructionCache,
      Log kLevel_Message ''init complete'', DebugLog_flush,
      Call_Original 0x7FFA76543220 CRT_get_narrow_winmain_command_line (Pointer 0x500000)] \<and>
   Log kLevel_Error msg_no_branch_trampoline \<in>
     set (trace (snd (host_calls (example_env False) [CRT_initterm_e 0x1000 0x1010]
       initial_state)))"
  using initialize_independent_of_preinit
      [where s = initial_state and cs = "[CRT_initterm_e 0x1000 0x1010]"
        and env = "example_env False",
       OF initial_state_latches(2) _ prod.collapse [symmetric] prod.collapse [symmetric]]
  by (simp add: example_env_def initial_state_def hook_eval preinit_events_def)

section \<open>Installing the base hooks\<close>

text \<open>
  C6. Let the log be opened (its assertion holds), let both look-ups of \<^verbatim>\<open>getIATAddr\<close>
  return, at least one of them with \<^verbatim>\<open>nullptr\<close>, and let the slot that was resolved, if
  any, be readable. Then \<^verbatim>\<open>installBaseHooks\<close> returns normally. For each unresolved slot
  its error is logged and its saved original is untouched; the other slot, when
  resolved, is still hooked (its value saved, the hook's address written); and no byte
  of memory outside that other cell changes, so an unresolved slot keeps whatever it
  holds.
\<close>

theorem installBaseHooks_unresolved_slot:
  assumes "env_SHGetFolderPath_succeeds env"
    and "getIATAddr (proc_mem s) exe crt_dll ''_initterm_e'' = Some (Ret initterm)"
    and "getIATAddr (proc_mem s) exe crt_dll ''_get_narrow_winmain_command_line'' =
           Some (Ret cmdline)"
    and "initterm = 0 \<or> cmdline = 0"
    and "initterm \<noteq> 0 \<longrightarrow> read64 (proc_mem s) initterm = Ret original"
    and "cmdline \<noteq> 0 \<longrightarrow> read64 (proc_mem s) cmdline = Ret original"
  shows "\<exists>s'. installBaseHooks env exe s = Some (Returned s') \<and>
     (initterm = 0 \<longrightarrow>
        Log kLevel_Error ''couldn't find _initterm_e'' \<in> set (trace s') \<and>
        initterm_e_Original s' = initterm_e_Original s \<and>
        (if cmdline = 0 then proc_mem s' = proc_mem s
         else proc_mem s' =
                safeWrite64 cmdline (env_get_narrow_winmain_command_line_Hook env) (proc_mem s) \<and>
              get_narrow_winmain_command_line_Original s' = original \<and>
              (\<forall>a. (\<forall>i. i < 8 \<longrightarrow> a \<noteq> cmdline + of_nat i) \<longrightarrow>
                 proc_mem s' a = proc_mem s a))) \<and>
     (cmdline = 0 \<longrightarrow>
        Log kLevel_Error ''couldn't find _get_narrow_winmain_command_line'' \<in> set (trace s') \<and>
        get_narrow_winmain_command_line_Original s' =
          get_narrow_winmain_command_line_Original s \<and>
        (if initterm = 0 then proc_mem s' = proc_mem s
         else proc_mem s' = safeWrite64 initterm (env_initterm_e_Hook env) (proc_mem s) \<and>
              initterm_e_Original s' = original \<and>
              (\<forall>a. (\<forall>i. i < 8 \<longrightarrow> a \<noteq> initterm + of_nat i) \<longrightarrow>
                 proc_mem s' a = proc_mem s a)))"
  using assms
  by (auto simp add: installBaseHooks_def DebugLog_openRelative_def hook_initterm_e_def
      hook_get_narrow_winmain_command_line_def emit_def safeWrite64_other)

lemmas import_eval =
  getIATAddr_def descriptor_loop.simps thunk_loop.simps import_descriptor_named_def
  import_thunk_named_def dataDirectory_def ntHeader_def image_eval crt_dll_def

lemma host_image_initterm_e:
  "getIATAddr host_image 0x10000 crt_dll ''_initterm_e'' = Some (Ret 0x103B0)"
  by (simp add: host_image_def import_eval del: store_bytes.simps)

lemma host_image_no_cmdline:
  "getIATAddr host_image 0x10000 crt_dll ''_get_narrow_winmain_command_line'' = Some (Ret 0)"
  by (simp add: host_image_def import_eval del: store_bytes.simps)

lemma host_image_cmdline_no_initterm_e:
  "getIATAddr host_image_cmdline 0x10000 crt_dll ''_initterm_e'' = Some (Ret 0)"
  by (simp add: host_image_cmdline_def import_eval del: store_bytes.simps)

lemma host_image_cmdline_cmdline:
  "getIATAddr host_image_cmdline 0x10000 crt_dll ''_get_narrow_winmain_command_line'' =
     Some (Ret 0x103B0)"
  by (simp add: host_image_cmdline_def import_eval del: store_bytes.simps)

lemma host_image_slot: "read64 host_image 0x103B0 = Ret 0x7FFA76543230"
  by (simp add: host_image_def image_eval del: store_bytes.simps)

lemma host_image_cmdline_slot: "read64 host_image_cmdline 0x103B0 = Ret 0x7FFA76543230"
  by (simp add: host_image_cmdline_def image_eval del: store_bytes.simps)

lemma example_env_fields:
  "env_SHGetFolderPath_succeeds (example_env b)"
  "env_initterm_e_Hook (example_env b) = 0x7FFB00001000"
  "env_get_narrow_winmain_command_line_Hook (example_env b) = 0x7FFB00002000"
  by (simp_all add: example_env_def)

lemma initial_state_fields:
  "proc_mem initial_state = host_image"
  "initterm_e_Original initial_state = 0x7FFA76543210"
  "get_narrow_winmain_command_line_Original initial_state = 0x7FFA76543220"
  by (simp_all add: initial_state_def)

theorem installBaseHooks_unresolved_slot_witness:
  "(\<exists>s'. installBaseHooks (example_env True) 0x10000 initial_state = Some (Returned s') \<and>
      Log kLevel_Error ''couldn't find _get_narrow_winmain_command_line'' \<in> set (trace s') \<and>
      get_narrow_winmain_command_line_Original s' = 0x7FFA76543220 \<and>
      proc_mem s' = safeWrite64 0x103B0 0x7FFB00001000 host_image \<and>
      initterm_e_Original s' = 0x7FFA76543230) \<and>
   (\<exists>s'. installBaseHooks (example_env True) 0x10000
           (initial_state\<lparr>proc_mem := host_image_cmdline\<rparr>) = Some (Returned s') \<and>
      Log kLevel_Error ''couldn't find _initterm_e'' \<in> set (trace s') \<and>
      initterm_e_Original s' = 0x7FFA76543210 \<and>
      proc_mem s' = safeWrite64 0x103B0 0x7FFB00002000 host_image_cmdline \<and>
      get_narrow_winmain_command_line_Original s' = 0x7FFA76543230)"
  using
    installBaseHooks_unresolved_slot
      [where env = "example_env True" and s = initial_state and exe = "0x10000"
        and initterm = "0x103B0" and cmdline = 0 and original = "0x7FFA76543230"]
    installBaseHooks_unresolved_slot
      [where env = "example_env True" and s = "initial_state\<lparr>proc_mem := host_image_cmdline\<rparr>"
        and exe = "0x10000" and initterm = 0 and cmdline = "0x103B0"
        and original = "0x7FFA76543230"]
    host_image_initterm_e host_image_no_cmdline host_image_cmdline_no_initterm_e
    host_image_cmdline_cmdline host_image_slot host_image_cmdline_slot
    example_env_fields initial_state_fields
  by simp blast

section \<open>Configuration options\<close>

text \<open>With a module file name from the platform, the configuration path is obtained.\<close>

lemma getConfigPath_returns:
  assumes "env_GetModuleFileName env \<noteq> []"
  shows "\<exists>configPath s1. getConfigPath env s = Some (configPath, s1)"
proof -
  have "\<exists>p s0. getRuntimePath env s = Some (p, s0)"
    using assms by (simp add: getRuntimePath_def)
  then have "\<exists>d s1. getRuntimeDirectory env s = Some (d, s1)"
    by (auto simp add: getRuntimeDirectory_def split: option.splits)
  then show ?thesis
    by (auto simp add: getConfigPath_def Let_def)
qed

text \<open>
  C8. Whenever \<^verbatim>\<open>GetModuleFileName\<close> succeeds (so that no assertion fails), both functions
  return, for every section and key and from every state. When the configuration path
  is empty, or the file or the key does not exist, \<^verbatim>\<open>getConfigOption\<close> returns the empty
  string and \<^verbatim>\<open>getConfigOption_u32\<close> returns false and leaves \<^verbatim>\<open>*dataOut\<close> as it was.
  \<^verbatim>\<open>getConfigOption_u32\<close> returns true exactly when the string looked up is not empty and
  \<^verbatim>\<open>sscanf_s\<close> converts it; then \<^verbatim>\<open>*dataOut\<close> holds the converted number, otherwise its old
  value.
\<close>

theorem config_lookup:
  assumes "env_GetModuleFileName env \<noteq> []"
  shows "\<exists>configPath s1 data ok out.
     getConfigPath env s = Some (configPath, s1) \<and>
     getConfigOption env section key s = Some (data, s1) \<and>
     getConfigOption_u32 env section key dataOut s = Some ((ok, out), s1) \<and>
     (configPath = [] \<or> env_profile env configPath section key = None \<longrightarrow>
        data = [] \<and> \<not> ok \<and> out = dataOut) \<and>
     (ok \<longleftrightarrow> data \<noteq> [] \<and> env_sscanf_u env data \<noteq> None) \<and>
     (if ok then env_sscanf_u env data = Some out else out = dataOut)"
proof -
  from getConfigPath_returns [OF assms] obtain configPath s1 where
    "getConfigPath env s = Some (configPath, s1)"
    by blast
  then show ?thesis
    by (auto simp add: getConfigOption_def getConfigOption_u32_def GetPrivateProfileString_def
        split: option.splits)
qed

lemma example_getConfigPath:
  "getConfigPath example_config_env initial_config_state =
     Some (example_config_path, example_config_state)"
  by (simp add: getConfigPath_def getRuntimeDirectory_def getRuntimePath_def rfind_def
      example_config_env_def initial_config_state_def example_config_path_def
      example_config_state_def backslash_def Let_def)

lemma example_config_env_module: "env_GetModuleFileName example_config_env \<noteq> []"
  by (simp add: example_config_env_def)

theorem config_lookup_witness:
  "getConfigOption example_config_env ''Debug'' ''Other'' initial_config_state =
     Some ([], example_config_state) \<and>
   getConfigOption_u32 example_config_env ''Debug'' ''Other'' 7 initial_config_state =
     Some ((False, 7), example_config_state) \<and>
   getConfigOption example_config_env ''Debug'' ''Level'' initial_config_state =
     Some (''42'', example_config_state) \<and>
   getConfigOption_u32 example_config_env ''Debug'' ''Level'' 7 initial_config_state =
     Some ((True, 42), example_config_state)"
proof -
  have absent: "env_profile example_config_env example_config_path ''Debug'' ''Other'' = None"
    by (simp add: example_config_env_def)
  have present: "env_profile example_config_env example_config_path ''Debug'' ''Level'' =
      Some ''42''"
    by (simp add: example_config_env_def example_config_path_def)
  have scan: "env_sscanf_u example_config_env ''42'' = Some 42"
    by (simp add: example_config_env_def)
  have get: "getConfigOption example_config_env ''Debug'' ''Level'' initial_config_state =
      Some (''42'', example_config_state)"
    using example_getConfigPath present
    by (simp add: getConfigOption_def GetPrivateProfileString_def example_config_path_def)
  show ?thesis
    using
      config_lookup [OF example_config_env_module,
        of initial_config_state "''Debug''" "''Other''" 7]
      config_lookup [OF example_config_env_module,
        of initial_config_state "''Debug''" "''Level''" 7]
      example_getConfigPath absent get scan
    by auto
qed

end
